theory Spec2Isabelle
  imports Complex_Main
begin

section \<open>Python values and exceptions\<close>

text \<open>
  The library \<^verbatim>\<open>py_moex.py\<close> is dynamically typed: its functions check some of their
  arguments with \<^verbatim>\<open>isinstance\<close> and index into whatever \<^verbatim>\<open>response.json()\<close> returns. The
  values that reach it are modelled by one datatype. A \<^verbatim>\<open>str\<close> is a \<open>string\<close> whose
  characters stand for the code points below 256; a finite \<^verbatim>\<open>float\<close> is the rational it
  denotes; a \<^verbatim>\<open>dict\<close> decoded from JSON is an association list with string keys, read
  with \<open>map_of\<close>. \<open>PDataFrame cols rows\<close> is a \<^verbatim>\<open>pandas.DataFrame\<close> with the given column
  names and rows.
\<close>

record datetime =
  year :: nat
  month :: nat
  day :: nat
  hour :: nat
  minute :: nat
  second :: nat
  microsecond :: nat

datatype pyval =
    PNone
  | PBool bool
  | PInt int
  | PFloat rat
  | PStr string
  | PList "pyval list"
  | PDict "(string \<times> pyval) list"
  | PDatetime datetime
  | PDataFrame "string list" "pyval list list"

text \<open>
  The exception classes the code raises or lets through. A \<^verbatim>\<open>ValueError\<close> carries the
  message the library raises it with: the five messages of \<^verbatim>\<open>get_security_info\<close>, in the
  order of lines 23, 39, 43, 52 and 57; \<open>OtherValueError\<close> is one raised by the
  interpreter. \<open>RequestException\<close>
  stands for \<^verbatim>\<open>requests.RequestException\<close> and its subclasses raised by the transport
  and by \<^verbatim>\<open>raise_for_status\<close>. \<open>JSONDecodeError\<close> is what \<^verbatim>\<open>response.json()\<close> raises
  on a body that is not JSON: in \<^verbatim>\<open>requests\<close> it derives both from \<^verbatim>\<open>RequestException\<close>
  and from \<^verbatim>\<open>ValueError\<close>, so both kinds of handler catch it.
\<close>

datatype value_error =
    TickerNotStr
  | JsonParse
  | BadResponseFormat
  | MissingDescriptionData
  | BadBoardsFormat
  | OtherValueError

datatype exn =
    ValueError value_error
  | TypeError
  | RuntimeError
  | AttributeError
  | IndexError
  | KeyError
  | OverflowError
  | OSError
  | RequestException
  | JSONDecodeError

fun is_RequestException :: "exn \<Rightarrow> bool" where
  "is_RequestException RequestException = True"
| "is_RequestException JSONDecodeError = True"
| "is_RequestException _ = False"

fun is_ValueError :: "exn \<Rightarrow> bool" where
  "is_ValueError (ValueError m) = True"
| "is_ValueError JSONDecodeError = True"
| "is_ValueError _ = False"

subsection \<open>Built-in operations on values\<close>

text \<open>Truth value of an object, as \<^verbatim>\<open>if x:\<close>, \<^verbatim>\<open>not x\<close> and \<^verbatim>\<open>all\<close> test it.\<close>

fun truthy :: "pyval \<Rightarrow> bool" where
  "truthy PNone = False"
| "truthy (PBool b) = b"
| "truthy (PInt i) = (i \<noteq> 0)"
| "truthy (PFloat r) = (r \<noteq> 0)"
| "truthy (PStr s) = (s \<noteq> [])"
| "truthy (PList xs) = (xs \<noteq> [])"
| "truthy (PDict kvs) = (kvs \<noteq> [])"
| "truthy (PDatetime d) = True"
| "truthy (PDataFrame cols rows) = True"

text \<open>\<^verbatim>\<open>x[i]\<close> for a non-negative integer literal \<open>i\<close>. A dict decoded from JSON has
  only string keys, so an integer subscript is a missing key.\<close>

fun getitem_int :: "pyval \<Rightarrow> nat \<Rightarrow> exn + pyval" where
  "getitem_int (PList xs) i = (if i < length xs then Inr (xs ! i) else Inl IndexError)"
| "getitem_int (PStr s) i = (if i < length s then Inr (PStr [s ! i]) else Inl IndexError)"
| "getitem_int (PDict kvs) i = Inl KeyError"
| "getitem_int (PDataFrame cols rows) i = Inl KeyError"
| "getitem_int _ i = Inl TypeError"

text \<open>\<^verbatim>\<open>x[-1]\<close>.\<close>

fun getitem_last :: "pyval \<Rightarrow> exn + pyval" where
  "getitem_last (PList xs) = (if xs = [] then Inl IndexError else Inr (last xs))"
| "getitem_last (PStr s) = (if s = [] then Inl IndexError else Inr (PStr [last s]))"
| "getitem_last (PDict kvs) = Inl KeyError"
| "getitem_last (PDataFrame cols rows) = Inl KeyError"
| "getitem_last _ = Inl TypeError"

text \<open>\<^verbatim>\<open>x[k]\<close> for a string literal \<open>k\<close>.\<close>

fun getitem_str :: "pyval \<Rightarrow> string \<Rightarrow> exn + pyval" where
  "getitem_str (PDict kvs) k = (case map_of kvs k of None \<Rightarrow> Inl KeyError | Some v \<Rightarrow> Inr v)"
| "getitem_str (PDataFrame cols rows) k = Inl KeyError"
| "getitem_str _ k = Inl TypeError"

text \<open>\<^verbatim>\<open>x.get(k, default)\<close>: only a dict has the method.\<close>

fun dict_get :: "pyval \<Rightarrow> string \<Rightarrow> pyval \<Rightarrow> exn + pyval" where
  "dict_get (PDict kvs) k d = (case map_of kvs k of None \<Rightarrow> Inr d | Some v \<Rightarrow> Inr v)"
| "dict_get _ k d = Inl AttributeError"

text \<open>The elements a \<^verbatim>\<open>for\<close> loop or a comprehension draws from an object.\<close>

fun iterate :: "pyval \<Rightarrow> exn + pyval list" where
  "iterate (PList xs) = Inr xs"
| "iterate (PStr s) = Inr (map (\<lambda>c. PStr [c]) s)"
| "iterate (PDict kvs) = Inr (map (\<lambda>kv. PStr (fst kv)) kvs)"
| "iterate _ = Inl TypeError"

text \<open>\<^verbatim>\<open>len(x)\<close>.\<close>

fun py_len :: "pyval \<Rightarrow> exn + nat" where
  "py_len (PList xs) = Inr (length xs)"
| "py_len (PStr s) = Inr (length s)"
| "py_len (PDict kvs) = Inr (length kvs)"
| "py_len (PDataFrame cols rows) = Inr (length rows)"
| "py_len _ = Inl TypeError"

text \<open>\<^verbatim>\<open>k in x\<close> for a string literal \<open>k\<close>: a key of a dict, an element of a list, a
  substring of a string.\<close>

fun is_substring :: "string \<Rightarrow> string \<Rightarrow> bool" where
  "is_substring k [] = (k = [])"
| "is_substring k (c # cs) = (take (length k) (c # cs) = k \<or> is_substring k cs)"

fun contains_str :: "pyval \<Rightarrow> string \<Rightarrow> exn + bool" where
  "contains_str (PDict kvs) k = Inr (k \<in> set (map fst kvs))"
| "contains_str (PList xs) k = Inr (PStr k \<in> set xs)"
| "contains_str (PStr s) k = Inr (is_substring k s)"
| "contains_str (PDataFrame cols rows) k = Inr (k \<in> set cols)"
| "contains_str _ k = Inl TypeError"

text \<open>Whether an object can be a dict key.\<close>

fun hashable :: "pyval \<Rightarrow> bool" where
  "hashable (PList xs) = False"
| "hashable (PDict kvs) = False"
| "hashable (PDataFrame cols rows) = False"
| "hashable _ = True"

subsection \<open>String methods\<close>

text \<open>\<^verbatim>\<open>str.split()\<close> with no argument splits at runs of whitespace and drops empty
  pieces. Below 256 the whitespace code points are 9 to 13, 28 to 32, 133 and 160.\<close>

definition is_space :: "char \<Rightarrow> bool" where
  "is_space c = (let n = (of_char c :: nat) in
     (9 \<le> n \<and> n \<le> 13) \<or> (28 \<le> n \<and> n \<le> 32) \<or> n = 133 \<or> n = 160)"

fun split_ws :: "string \<Rightarrow> string \<Rightarrow> string list" where
  "split_ws cur [] = (if cur = [] then [] else [cur])"
| "split_ws cur (c # cs) =
     (if is_space c then (if cur = [] then split_ws [] cs else cur # split_ws [] cs)
      else split_ws (cur @ [c]) cs)"



section \<open>Naive datetimes and timedeltas\<close>

text \<open>
  \<^verbatim>\<open>datetime\<close> objects without time zone. The constructor admits years 1 to 9999;
  arithmetic that leaves that range raises \<^verbatim>\<open>OverflowError\<close>.
\<close>

definition is_leap :: "nat \<Rightarrow> bool" where
  "is_leap y = (y mod 4 = 0 \<and> (y mod 100 \<noteq> 0 \<or> y mod 400 = 0))"

definition days_in_month :: "nat \<Rightarrow> nat \<Rightarrow> nat" where
  "days_in_month y m =
     (if m = 2 then (if is_leap y then 29 else 28)
      else if m = 4 \<or> m = 6 \<or> m = 9 \<or> m = 11 then 30 else 31)"

definition valid_datetime :: "datetime \<Rightarrow> bool" where
  "valid_datetime d =
     (1 \<le> year d \<and> year d \<le> 9999 \<and> 1 \<le> month d \<and> month d \<le> 12 \<and>
      1 \<le> day d \<and> day d \<le> days_in_month (year d) (month d) \<and>
      hour d < 24 \<and> minute d < 60 \<and> second d < 60 \<and> microsecond d < 1000000)"

text \<open>Comparison is lexicographic on the fields, most significant first.\<close>

fun lex_less :: "nat list \<Rightarrow> nat list \<Rightarrow> bool" where
  "lex_less (x # xs) (y # ys) = (x < y \<or> (x = y \<and> lex_less xs ys))"
| "lex_less _ _ = False"

definition dt_fields :: "datetime \<Rightarrow> nat list" where
  "dt_fields d = [year d, month d, day d, hour d, minute d, second d, microsecond d]"

definition dt_gt :: "datetime \<Rightarrow> datetime \<Rightarrow> bool" where
  "dt_gt a b = lex_less (dt_fields b) (dt_fields a)"

definition dt_le :: "datetime \<Rightarrow> datetime \<Rightarrow> bool" where
  "dt_le a b = (lex_less (dt_fields a) (dt_fields b) \<or> dt_fields a = dt_fields b)"

text \<open>The day after and the day before a date.\<close>

definition next_day :: "datetime \<Rightarrow> exn + datetime" where
  "next_day d =
     (if day d < days_in_month (year d) (month d) then Inr (d\<lparr>day := day d + 1\<rparr>)
      else if month d < 12 then Inr (d\<lparr>month := month d + 1, day := 1\<rparr>)
      else if year d < 9999 then Inr (d\<lparr>year := year d + 1, month := 1, day := 1\<rparr>)
      else Inl OverflowError)"

definition prev_day :: "datetime \<Rightarrow> exn + datetime" where
  "prev_day d =
     (if 1 < day d then Inr (d\<lparr>day := day d - 1\<rparr>)
      else if 1 < month d
        then Inr (d\<lparr>month := month d - 1, day := days_in_month (year d) (month d - 1)\<rparr>)
      else if 1 < year d then Inr (d\<lparr>year := year d - 1, month := 12, day := 31\<rparr>)
      else Inl OverflowError)"

fun shift_days :: "nat \<Rightarrow> bool \<Rightarrow> datetime \<Rightarrow> exn + datetime" where
  "shift_days 0 back d = Inr d"
| "shift_days (Suc n) back d =
     (case (if back then prev_day d else next_day d) of
        Inl e \<Rightarrow> Inl e
      | Inr d' \<Rightarrow> shift_days n back d')"

text \<open>\<open>plus_timedelta d days secs\<close> is \<^verbatim>\<open>d + timedelta(days=days, seconds=secs)\<close>: the
  seconds are added to the time of day, and whole days carry into the date.\<close>

definition plus_timedelta :: "datetime \<Rightarrow> int \<Rightarrow> int \<Rightarrow> exn + datetime" where
  "plus_timedelta d days secs =
     (let total = int (hour d * 3600 + minute d * 60 + second d) + secs;
          carry = days + total div 86400;
          tod = nat (total mod 86400);
          d' = d\<lparr>hour := tod div 3600, minute := (tod mod 3600) div 60, second := tod mod 60\<rparr>
      in shift_days (nat \<bar>carry\<bar>) (carry < 0) d')"

subsection \<open>\<^verbatim>\<open>strftime\<close>\<close>

definition digit :: "nat \<Rightarrow> char" where
  "digit n = ''0123456789'' ! (n mod 10)"

definition pad2 :: "nat \<Rightarrow> string" where
  "pad2 n = [digit (n div 10), digit n]"

definition pad4 :: "nat \<Rightarrow> string" where
  "pad4 n = [digit (n div 1000), digit (n div 100), digit (n div 10), digit n]"


text \<open>\<^verbatim>\<open>d.strftime("%Y-%m-%d %H:%M:%S")\<close>\<close>

definition strftime_full :: "datetime \<Rightarrow> string" where
  "strftime_full d =
     pad4 (year d) @ ''-'' @ pad2 (month d) @ ''-'' @ pad2 (day d) @ '' '' @
     pad2 (hour d) @ '':'' @ pad2 (minute d) @ '':'' @ pad2 (second d)"

section \<open>The exchange, the console and the file system\<close>

text \<open>
  The requests the library sends. \<open>SecurityReq t\<close> is
  \<^verbatim>\<open>GET https://iss.moex.com/iss/securities/{t}.json\<close>;
  \<open>CandlesReq engine market t from till interval\<close> is the candles endpoint of the
  instrument with the three query parameters; \<open>HistoryReq engine market t\<close> is the
  history endpoint with \<^verbatim>\<open>sort_order=desc\<close> and \<^verbatim>\<open>limit=1\<close>. Engine and market are
  whatever the metadata response held at their positions, formatted into the URL.
\<close>

datatype request =
    SecurityReq string
  | CandlesReq pyval pyval string string string pyval
  | HistoryReq pyval pyval string

text \<open>
  What comes back: no response at all (connection failure, timeout), or a status code
  and a body, which either decodes as JSON or does not.
\<close>

datatype response = NoResponse | Response nat "pyval option"

text \<open>The exchange answers a request knowing the requests sent before it.\<close>

type_synonym network = "request list \<Rightarrow> request \<Rightarrow> response"

text \<open>The lines the library prints, by the statement that prints them.\<close>

datatype path = GivenPath pyval | DefaultPath string pyval

datatype message =
    WindowError datetime datetime exn
  | NotADataFrame
  | Saved path
  | SaveError
  | NoHistoryData
  | NoData
  | RequestError exn

record world =
  sent :: "request list"
  printed :: "message list"
  files :: "(path \<times> pyval) list"

definition and_then :: "exn + 'a \<Rightarrow> ('a \<Rightarrow> exn + 'b) \<Rightarrow> exn + 'b" where
  "and_then r f = (case r of Inl e \<Rightarrow> Inl e | Inr x \<Rightarrow> f x)"

text \<open>\<^verbatim>\<open>response = requests.get(...); response.raise_for_status()\<close>: the body of the
  response, or the exception. \<^verbatim>\<open>raise_for_status\<close> raises for the statuses 400 to 599.\<close>

definition send :: "network \<Rightarrow> request \<Rightarrow> world \<Rightarrow> (exn + pyval option) \<times> world" where
  "send net req w =
     ((case net (sent w) req of
         NoResponse \<Rightarrow> Inl RequestException
       | Response status body \<Rightarrow>
           if 400 \<le> status \<and> status < 600 then Inl RequestException else Inr body),
      w\<lparr>sent := sent w @ [req]\<rparr>)"

text \<open>\<^verbatim>\<open>response.json()\<close>\<close>

definition json_of :: "pyval option \<Rightarrow> exn + pyval" where
  "json_of body = (case body of None \<Rightarrow> Inl JSONDecodeError | Some v \<Rightarrow> Inr v)"

text \<open>A message written to the console. The functions that talk to the exchange are
  modelled on a console that takes every message; \<^verbatim>\<open>get_candles_save\<close> is modelled on any
  console.\<close>

definition say :: "message \<Rightarrow> world \<Rightarrow> world" where
  "say m w = w\<lparr>printed := printed w @ [m]\<rparr>"

section \<open>\<^verbatim>\<open>get_security_info\<close>\<close>

record security_info =
  secid :: pyval
  shortname :: pyval
  group :: pyval
  market :: pyval
  engine :: pyval

text \<open>The dict comprehension \<^verbatim>\<open>{item[0]: item[2] for item in ...}\<close>: the items are
  entered in order, each under its key. Only string keys are looked up afterwards.\<close>

fun description_dict :: "pyval list \<Rightarrow> (pyval \<rightharpoonup> pyval) \<Rightarrow> exn + (pyval \<rightharpoonup> pyval)" where
  "description_dict [] m = Inr m"
| "description_dict (item # items) m =
     and_then (getitem_int item 0) (\<lambda>k.
     and_then (getitem_int item 2) (\<lambda>v.
       if hashable k then description_dict items (m(k \<mapsto> v)) else Inl TypeError))"

text \<open>\<^verbatim>\<open>description_data.get(name)\<close>\<close>

definition get_or_None :: "(pyval \<rightharpoonup> pyval) \<Rightarrow> string \<Rightarrow> pyval" where
  "get_or_None m name = (case m (PStr name) of None \<Rightarrow> PNone | Some v \<Rightarrow> v)"

text \<open>Lines 41 to 69: from the decoded response to the returned dict.\<close>

definition security_of_json :: "pyval \<Rightarrow> exn + security_info" where
  "security_of_json data =
     and_then (contains_str data ''description'') (\<lambda>has_description.
     and_then (if has_description then contains_str data ''boards'' else Inr False) (\<lambda>has_both.
       if \<not> has_both then Inl (ValueError BadResponseFormat)
       else
         and_then (getitem_str data ''description'') (\<lambda>description.
         and_then (getitem_str description ''data'') (\<lambda>triples.
         and_then (iterate triples) (\<lambda>items.
         and_then (description_dict items Map.empty) (\<lambda>description_data.
           let secid = get_or_None description_data ''SECID'';
               shortname = get_or_None description_data ''SHORTNAME'';
               group = get_or_None description_data ''GROUP''
           in
             if \<not> (truthy secid \<and> truthy shortname \<and> truthy group)
             then Inl (ValueError MissingDescriptionData)
             else
               and_then (getitem_str data ''boards'') (\<lambda>boards.
               and_then (getitem_str boards ''data'') (\<lambda>boards_data.
               and_then (if \<not> truthy boards_data then Inr True
                         else and_then (getitem_int boards_data 0) (\<lambda>row0.
                              and_then (py_len row0) (\<lambda>n. Inr (n < 8)))) (\<lambda>bad.
                 if bad then Inl (ValueError BadBoardsFormat)
                 else
                   and_then (getitem_int boards_data 0) (\<lambda>first_row.
                   and_then (getitem_int first_row 5) (\<lambda>market.
                   and_then (getitem_int first_row 7) (\<lambda>engine.
                     Inr \<lparr>secid = secid, shortname = shortname, group = group,
                          market = market, engine = engine\<rparr>))))))))))))"

definition get_security_info :: "network \<Rightarrow> pyval \<Rightarrow> world \<Rightarrow> (exn + security_info) \<times> world" where
  "get_security_info net ticker w =
     (case ticker of
        PStr t \<Rightarrow>
          (case send net (SecurityReq t) w of
             (Inl e, w1) \<Rightarrow> (Inl (if is_RequestException e then RuntimeError else e), w1)
           | (Inr body, w1) \<Rightarrow>
               (case json_of body of
                  Inl e \<Rightarrow> (Inl (if is_ValueError e then ValueError JsonParse else e), w1)
                | Inr data \<Rightarrow> (security_of_json data, w1)))
      | _ \<Rightarrow> (Inl (ValueError TickerNotStr), w))"

section \<open>\<^verbatim>\<open>get_candles\<close>\<close>

subsection \<open>The loop over days and hours\<close>

text \<open>
  The two nested loops of lines 106 to 136, with the \<^verbatim>\<open>try\<close> statement of lines 120 to
  134 as the parameter \<open>body\<close>. The loop state \<open>s\<close> is whatever the body changes; the
  result is the exception that escaped, if any, with the state at that moment.
\<close>

fun hour_loop ::
  "(datetime \<Rightarrow> datetime \<Rightarrow> 's \<Rightarrow> exn option \<times> 's) \<Rightarrow> datetime \<Rightarrow> datetime \<Rightarrow> nat list \<Rightarrow> 's
     \<Rightarrow> exn option \<times> 's" where
  "hour_loop body current_start end_date [] s = (None, s)"
| "hour_loop body current_start end_date (h # hs) s =
     (let start_time = current_start\<lparr>hour := h, minute := 0, second := 0\<rparr> in
      case plus_timedelta start_time 0 3600 of
        Inl e \<Rightarrow> (Some e, s)
      | Inr t \<Rightarrow>
          (case plus_timedelta t 0 (- 1) of
             Inl e \<Rightarrow> (Some e, s)
           | Inr end_time \<Rightarrow>
               if dt_gt start_time end_date then (None, s)
               else
                 (case body start_time end_time s of
                    (Some e, s') \<Rightarrow> (Some e, s')
                  | (None, s') \<Rightarrow> hour_loop body current_start end_date hs s')))"

text \<open>Adding at least one day moves the date forward; this is what ends the loop over
  days.\<close>

definition date_before :: "datetime \<Rightarrow> datetime \<Rightarrow> bool" where
  "date_before a b =
     (year a < year b \<or>
      (year a = year b \<and>
        ((month a < month b \<and> month b \<le> 12) \<or>
         (month a = month b \<and> day a < day b \<and> day b \<le> 31))))"

lemma days_in_month_le: "days_in_month y m \<le> 31"
  by (simp add: days_in_month_def)

lemma next_day_before: "next_day d = Inr d' \<Longrightarrow> date_before d d'"
  using days_in_month_le [of "year d" "month d"]
  by (auto simp: next_day_def date_before_def split: if_splits)

lemma date_before_trans: "date_before a b \<Longrightarrow> date_before b c \<Longrightarrow> date_before a c"
  by (auto simp: date_before_def)

lemma shift_days_before:
  "shift_days (Suc n) False d = Inr d' \<Longrightarrow> date_before d d'"
proof (induction n arbitrary: d)
  case 0
  then show ?case by (auto split: sum.splits dest: next_day_before)
next
  case (Suc n)
  from Suc.prems obtain d1 where d1: "next_day d = Inr d1"
    and rest: "shift_days (Suc n) False d1 = Inr d'"
    by (auto split: sum.splits)
  from Suc.IH [OF rest] next_day_before [OF d1] show ?case
    by (blast intro: date_before_trans)
qed

lemma plus_one_day_before:
  assumes "plus_timedelta d 1 0 = Inr d'"
  shows "date_before d d'"
proof -
  define total where "total = int (hour d * 3600 + minute d * 60 + second d)"
  define tod where "tod = nat (total mod 86400)"
  define d0 where
    "d0 = d\<lparr>hour := tod div 3600, minute := (tod mod 3600) div 60, second := tod mod 60\<rparr>"
  have nonneg: "0 \<le> total div 86400"
    by (simp add: total_def pos_imp_zdiv_nonneg_iff)
  then obtain n where n: "nat \<bar>1 + total div 86400\<bar> = Suc n"
    by (cases "nat \<bar>1 + total div 86400\<bar>") auto
  from nonneg have fwd: "\<not> (1 + total div 86400 < 0)" by simp
  from assms have "shift_days (Suc n) False d0 = Inr d'"
    using n fwd by (simp add: plus_timedelta_def Let_def total_def tod_def d0_def)
  then have "date_before d0 d'" by (rule shift_days_before)
  then show ?thesis by (simp add: date_before_def d0_def)
qed

lemma dt_le_year: "dt_le a b \<Longrightarrow> year a \<le> year b"
  by (auto simp: dt_le_def dt_fields_def)

function day_loop ::
  "(datetime \<Rightarrow> datetime \<Rightarrow> 's \<Rightarrow> exn option \<times> 's) \<Rightarrow> datetime \<Rightarrow> datetime \<Rightarrow> 's
     \<Rightarrow> exn option \<times> 's" where
  "day_loop body current_start end_date s =
     (if dt_le current_start end_date then
        (case hour_loop body current_start end_date [10..<24] s of
           (Some e, s') \<Rightarrow> (Some e, s')
         | (None, s') \<Rightarrow>
             (case plus_timedelta current_start 1 0 of
                Inl e \<Rightarrow> (Some e, s')
              | Inr next_start \<Rightarrow> day_loop body next_start end_date s'))
      else (None, s))"
  by pat_completeness auto
termination
proof (relation "measures [\<lambda>(body, c, e, s). year e + 1 - year c,
                           \<lambda>(body, c, e, s). 13 - month c,
                           \<lambda>(body, c, e, s). 32 - day c]", goal_cases)
  case 1
  then show ?case by simp
next
  case (2 body current_start end_date s x y next_start)
  from 2 have le: "year current_start \<le> year end_date"
    by (auto dest: dt_le_year)
  from 2 have "date_before current_start next_start"
    by (auto dest: plus_one_day_before)
  with le show ?case
    by (auto simp: date_before_def)
qed

text \<open>
  The window planner is this loop with a body that only records the window it is given:
  the windows for which \<^verbatim>\<open>get_candles\<close> reaches its \<^verbatim>\<open>try\<close> statement, in order.
\<close>

definition record_window ::
  "datetime \<Rightarrow> datetime \<Rightarrow> (datetime \<times> datetime) list
     \<Rightarrow> exn option \<times> (datetime \<times> datetime) list" where
  "record_window start_time end_time ws = (None, ws @ [(start_time, end_time)])"

definition plan :: "datetime \<Rightarrow> datetime \<Rightarrow> exn option \<times> (datetime \<times> datetime) list" where
  "plan start_date end_date = day_loop record_window start_date end_date []"

subsection \<open>One window\<close>





definition columns :: "string list" where
  "columns = [''<TICKER>'', ''<PER>'', ''<DATE>'', ''<TIME>'', ''<OPEN>'', ''<HIGH>'',
              ''<LOW>'', ''<CLOSE>'', ''<VOL>'']"


section \<open>\<^verbatim>\<open>get_candles_save\<close>\<close>

text \<open>
  \<open>cwd\<close> is what \<^verbatim>\<open>os.getcwd()\<close> finds: the working directory, or none when the call
  raises because the directory is gone or unreadable. \<open>can_write p\<close> tells whether
  \<^verbatim>\<open>DataFrame.to_csv\<close> completes for the path \<open>p\<close>. \<open>DefaultPath dir ticker\<close> is
  \<^verbatim>\<open>os.path.join(dir, f"{ticker}.csv")\<close>. \<open>console m\<close> is what \<^verbatim>\<open>print\<close> does with the
  message \<open>m\<close>: nothing but writing it, or the exception it raises when the standard
  output cannot take the text (a stream that cannot encode it, a closed stream).
\<close>

type_synonym console = "message \<Rightarrow> exn option"

text \<open>Lines 150 and 151.\<close>

definition chosen_path :: "string option \<Rightarrow> pyval \<Rightarrow> pyval \<Rightarrow> exn + path" where
  "chosen_path cwd ticker file_path =
     (if file_path = PNone
      then (case cwd of None \<Rightarrow> Inl OSError | Some dir \<Rightarrow> Inr (DefaultPath dir ticker))
      else Inr (GivenPath file_path))"

text \<open>\<^verbatim>\<open>print(...)\<close>\<close>

definition print_to :: "console \<Rightarrow> message \<Rightarrow> world \<Rightarrow> exn option \<times> world" where
  "print_to console m w =
     (case console m of None \<Rightarrow> (None, say m w) | Some e \<Rightarrow> (Some e, w))"

text \<open>Lines 158 to 161, the body of the \<^verbatim>\<open>try\<close> statement: the write, then the message that
  it was done. A write that fails raises some exception; the handler catches them all.\<close>

definition write_and_report ::
  "(path \<Rightarrow> bool) \<Rightarrow> console \<Rightarrow> pyval \<Rightarrow> path \<Rightarrow> world \<Rightarrow> exn option \<times> world" where
  "write_and_report can_write console candles p w =
     (if can_write p
      then print_to console (Saved p) (w\<lparr>files := files w @ [(p, candles)]\<rparr>)
      else (Some OSError, w))"

definition get_candles_save ::
  "string option \<Rightarrow> (path \<Rightarrow> bool) \<Rightarrow> console \<Rightarrow> pyval \<Rightarrow> pyval \<Rightarrow> pyval \<Rightarrow> world
     \<Rightarrow> (exn + unit) \<times> world"
  where
  "get_candles_save cwd can_write console candles ticker file_path w =
     (case chosen_path cwd ticker file_path of
        Inl e \<Rightarrow> (Inl e, w)
      | Inr p \<Rightarrow>
          (case candles of
             PDataFrame cols rows \<Rightarrow>
               (case write_and_report can_write console candles p w of
                  (None, w1) \<Rightarrow> (Inr (), w1)
                | (Some e, w1) \<Rightarrow>
                    (case print_to console SaveError w1 of
                       (None, w2) \<Rightarrow> (Inr (), w2)
                     | (Some e', w2) \<Rightarrow> (Inl e', w2)))
           | _ \<Rightarrow>
               (case print_to console NotADataFrame w of
                  (None, w1) \<Rightarrow> (Inr (), w1)
                | (Some e, w1) \<Rightarrow> (Inl e, w1))))"

section \<open>The latest bar\<close>

text \<open>
  \<^verbatim>\<open>float(x)\<close>. A float is returned as it is. The conversion of an \<^verbatim>\<open>int\<close> rounds to
  the nearest double and that of a \<^verbatim>\<open>str\<close> parses it; both belong to the interpreter
  and are parameters here.
\<close>

record float_lib =
  float_of_int :: "int \<Rightarrow> exn + rat"
  float_of_str :: "string \<Rightarrow> exn + rat"

fun py_float :: "float_lib \<Rightarrow> pyval \<Rightarrow> exn + rat" where
  "py_float fl (PFloat r) = Inr r"
| "py_float fl (PInt i) = float_of_int fl i"
| "py_float fl (PBool b) = float_of_int fl (if b then 1 else 0)"
| "py_float fl (PStr s) = float_of_str fl s"
| "py_float fl _ = Inl TypeError"

record bar =
  open_price :: rat
  close_price :: rat
  high_price :: rat
  low_price :: rat
  value_traded :: rat
  volume_traded :: rat

text \<open>Lines 223 to 241: from the body of the history response to the result. Each entry
  of the dict literal evaluates \<^verbatim>\<open>data[0]\<close> again, in the order written.\<close>

definition history_field :: "float_lib \<Rightarrow> pyval \<Rightarrow> nat \<Rightarrow> exn + rat" where
  "history_field fl data i =
     and_then (getitem_int data 0) (\<lambda>row. and_then (getitem_int row i) (py_float fl))"

definition history_bar :: "float_lib \<Rightarrow> pyval option \<Rightarrow> exn + bar option" where
  "history_bar fl body =
     and_then (json_of body) (\<lambda>js.
     and_then (dict_get js ''history'' (PDict [])) (\<lambda>history.
     and_then (dict_get history ''data'' (PList [])) (\<lambda>data.
       if truthy data then
         and_then (history_field fl data 6) (\<lambda>open.
         and_then (history_field fl data 11) (\<lambda>close.
         and_then (history_field fl data 8) (\<lambda>high.
         and_then (history_field fl data 7) (\<lambda>low.
         and_then (history_field fl data 5) (\<lambda>value.
         and_then (history_field fl data 12) (\<lambda>volume.
           Inr (Some \<lparr>open_price = open, close_price = close, high_price = high,
                      low_price = low, value_traded = value, volume_traded = volume\<rparr>)))))))
       else Inr None)))"

definition get_last_history_candle ::
  "float_lib \<Rightarrow> network \<Rightarrow> pyval \<Rightarrow> world \<Rightarrow> (exn + bar option) \<times> world" where
  "get_last_history_candle fl net ticker w =
     (case ticker of
        PStr t \<Rightarrow>
          (case get_security_info net ticker w of
             (Inl e, w1) \<Rightarrow> (Inl e, w1)
           | (Inr ticker_info, w1) \<Rightarrow>
               (case send net (HistoryReq (engine ticker_info) (market ticker_info) t) w1 of
                  (r, w2) \<Rightarrow>
                    (case and_then r (history_bar fl) of
                       Inr (Some result) \<Rightarrow> (Inr (Some result), w2)
                     | Inr None \<Rightarrow> (Inr None, say NoHistoryData w2)
                     | Inl e \<Rightarrow>
                         if is_RequestException e then (Inr None, say (RequestError e) w2)
                         else (Inl e, w2))))
      | _ \<Rightarrow> (Inl TypeError, w))"

text \<open>Lines 292 to 313: from the body of the candles response to the result.\<close>

definition candle_field :: "float_lib \<Rightarrow> pyval \<Rightarrow> nat \<Rightarrow> exn + rat" where
  "candle_field fl last_candle i = and_then (getitem_int last_candle i) (py_float fl)"

definition last_bar :: "float_lib \<Rightarrow> pyval option \<Rightarrow> exn + bar option" where
  "last_bar fl body =
     and_then (json_of body) (\<lambda>js.
     and_then (dict_get js ''candles'' (PDict [])) (\<lambda>candles.
     and_then (dict_get candles ''data'' (PList [])) (\<lambda>data.
       if truthy data then
         and_then (getitem_last data) (\<lambda>last_candle.
         and_then (candle_field fl last_candle 0) (\<lambda>open.
         and_then (candle_field fl last_candle 1) (\<lambda>close.
         and_then (candle_field fl last_candle 2) (\<lambda>high.
         and_then (candle_field fl last_candle 3) (\<lambda>low.
         and_then (candle_field fl last_candle 4) (\<lambda>value.
         and_then (candle_field fl last_candle 5) (\<lambda>volume.
           Inr (Some \<lparr>open_price = open, close_price = close, high_price = high,
                      low_price = low, value_traded = value, volume_traded = volume\<rparr>))))))))
       else Inr None)))"

text \<open>\<^verbatim>\<open>x.strftime("%Y-%m-%d %H:%M:%S")\<close> on an argument that was not type-checked.\<close>

definition strftime_of :: "pyval \<Rightarrow> exn + string" where
  "strftime_of v = (case v of PDatetime d \<Rightarrow> Inr (strftime_full d) | _ \<Rightarrow> Inl AttributeError)"

definition get_last_candle ::
  "float_lib \<Rightarrow> network \<Rightarrow> pyval \<Rightarrow> pyval \<Rightarrow> pyval \<Rightarrow> pyval \<Rightarrow> world
     \<Rightarrow> (exn + bar option) \<times> world" where
  "get_last_candle fl net ticker start_time end_time interval w =
     (case ticker of
        PStr t \<Rightarrow>
          (case get_security_info net ticker w of
             (Inl e, w1) \<Rightarrow> (Inl e, w1)
           | (Inr ticker_info, w1) \<Rightarrow>
               (case and_then (strftime_of start_time) (\<lambda>from.
                     and_then (strftime_of end_time) (\<lambda>till. Inr (from, till))) of
                  Inl e \<Rightarrow> (Inl e, w1)
                | Inr (from, till) \<Rightarrow>
                    (case send net (CandlesReq (engine ticker_info) (market ticker_info) t
                                      from till interval) w1 of
                       (r, w2) \<Rightarrow>
                         (case and_then r (last_bar fl) of
                            Inr (Some result) \<Rightarrow> (Inr (Some result), w2)
                          | Inr None \<Rightarrow> (Inr None, say NoData w2)
                          | Inl e \<Rightarrow>
                              if is_RequestException e then (Inr None, say (RequestError e) w2)
                              else (Inl e, w2)))))
      | _ \<Rightarrow> (Inl TypeError, w))"

text \<open>\<open>now\<close> is what \<^verbatim>\<open>datetime.now()\<close> returns.\<close>

definition get_last_price ::
  "float_lib \<Rightarrow> network \<Rightarrow> datetime \<Rightarrow> pyval \<Rightarrow> world \<Rightarrow> (exn + rat option) \<times> world" where
  "get_last_price fl net now ticker w =
     (case ticker of
        PStr t \<Rightarrow>
          (case plus_timedelta now 0 (- 900) of
             Inl e \<Rightarrow> (Inl e, w)
           | Inr start_time \<Rightarrow>
               (case get_last_candle fl net ticker (PDatetime start_time) (PDatetime now)
                       (PInt 1) w of
                  (Inl e, w1) \<Rightarrow> (Inl e, w1)
                | (Inr (Some last_candle), w1) \<Rightarrow> (Inr (Some (close_price last_candle)), w1)
                | (Inr None, w1) \<Rightarrow>
                    (case get_last_history_candle fl net ticker w1 of
                       (Inl e, w2) \<Rightarrow> (Inl e, w2)
                     | (Inr (Some last_candle), w2) \<Rightarrow>
                         (Inr (Some (close_price last_candle)), w2)
                     | (Inr None, w2) \<Rightarrow> (Inr None, w2))))
      | _ \<Rightarrow> (Inl TypeError, w))"

section \<open>Notions used in the statements\<close>

text \<open>The window of hour \<open>h\<close> on the day of \<open>c\<close>: from \<open>h:00:00\<close> to \<open>h:59:59\<close>, with the
  date and the microseconds of \<open>c\<close>.\<close>

definition window_of :: "datetime \<Rightarrow> nat \<Rightarrow> datetime \<times> datetime" where
  "window_of c h = (c\<lparr>hour := h, minute := 0, second := 0\<rparr>, c\<lparr>hour := h, minute := 59, second := 59\<rparr>)"

text \<open>The last day \<^verbatim>\<open>datetime\<close> can represent; adding a day to it overflows.\<close>

definition last_date :: "datetime \<Rightarrow> bool" where
  "last_date d = (year d = 9999 \<and> month d = 12 \<and> day d = 31)"

definition valid_date :: "datetime \<Rightarrow> bool" where
  "valid_date d = (1 \<le> year d \<and> year d \<le> 9999 \<and> 1 \<le> month d \<and> month d \<le> 12 \<and>
      1 \<le> day d \<and> day d \<le> days_in_month (year d) (month d))"

definition seconds_of_day :: "datetime \<Rightarrow> nat" where
  "seconds_of_day d = hour d * 3600 + minute d * 60 + second d"

definition same_date :: "datetime \<Rightarrow> datetime \<Rightarrow> bool" where
  "same_date a b = (year a = year b \<and> month a = month b \<and> day a = day b)"

text \<open>Running a loop body over a given list of windows, stopping at the first exception
  that escapes it.\<close>

fun run_windows ::
  "(datetime \<Rightarrow> datetime \<Rightarrow> 's \<Rightarrow> exn option \<times> 's) \<Rightarrow> (datetime \<times> datetime) list \<Rightarrow> 's \<Rightarrow> exn option \<times> 's" where
  "run_windows body [] s = (None, s)"
| "run_windows body (w # ws) s =
     (case body (fst w) (snd w) s of
        (Some e, s') \<Rightarrow> (Some e, s')
      | (None, s') \<Rightarrow> run_windows body ws s')"

text \<open>\<open>et\<close> is the end the loop computes for a window that starts at \<open>st\<close>: an hour
  later, less a second.\<close>

definition is_window_end :: "datetime \<Rightarrow> datetime \<Rightarrow> bool" where
  "is_window_end st et =
     (case plus_timedelta st 0 3600 of
        Inl e \<Rightarrow> False
      | Inr t \<Rightarrow> plus_timedelta t 0 (- 1) = Inr et)"

text \<open>The hours of a day the loop reaches before its \<^verbatim>\<open>break\<close>.\<close>

definition open_hours :: "datetime \<Rightarrow> datetime \<Rightarrow> nat list \<Rightarrow> nat list" where
  "open_hours c e hs = takeWhile (\<lambda>h. \<not> dt_gt (c\<lparr>hour := h, minute := 0, second := 0\<rparr>) e) hs"

subsection \<open>Example inputs\<close>

text \<open>A console that prints everything, and one that raises on every message, as a
  standard output that cannot encode the text does (\<^verbatim>\<open>UnicodeEncodeError\<close>, a
  \<^verbatim>\<open>ValueError\<close>).\<close>

definition plain_console :: console where
  "plain_console m = None"

definition mute_console :: console where
  "mute_console m = Some (ValueError OtherValueError)"

text \<open>A file system in which only the default file of the folder \<open>/data\<close> can be written.\<close>

definition data_folder_only :: "path \<Rightarrow> bool" where
  "data_folder_only p = (case p of DefaultPath dir t \<Rightarrow> dir = ''/data'' | GivenPath v \<Rightarrow> False)"

definition dec18_midnight :: datetime where
  "dec18_midnight =
     \<lparr>year = 2024, month = 12, day = 18, hour = 0, minute = 0, second = 0, microsecond = 0\<rparr>"

definition dec18_evening :: datetime where
  "dec18_evening =
     \<lparr>year = 2024, month = 12, day = 18, hour = 23, minute = 30, second = 15, microsecond = 7\<rparr>"

definition dec18_late_morning :: datetime where
  "dec18_late_morning =
     \<lparr>year = 2024, month = 12, day = 18, hour = 11, minute = 30, second = 0, microsecond = 0\<rparr>"

text \<open>The value of the last triple of the description section that carries a given field
  name; \<open>PNone\<close> when there is none.\<close>

definition last_triple_value :: "string \<Rightarrow> pyval list \<Rightarrow> pyval" where
  "last_triple_value name items =
     (case filter (\<lambda>item. getitem_int item 0 = Inr (PStr name)) items of
        [] \<Rightarrow> PNone
      | ms \<Rightarrow> (case getitem_int (last ms) 2 of Inr v \<Rightarrow> v | Inl e \<Rightarrow> PNone))"

definition idle :: world where
  "idle = \<lparr>sent = [], printed = [], files = []\<rparr>"

definition lkoh_boards :: pyval where
  "lkoh_boards = PDict [(''data'', PList [PList [PStr ''LKOH'', PStr ''TQBR'', PStr ''T+'',
       PInt 57, PInt 1, PStr ''shares'', PInt 1, PStr ''stock'', PInt 1, PInt 1]])]"

definition lkoh_security_json :: pyval where
  "lkoh_security_json = PDict
     [(''description'', PDict [(''data'', PList
         [PList [PStr ''SECID'', PStr ''code'', PStr ''LKOH''],
          PList [PStr ''SHORTNAME'', PStr ''name'', PStr ''LUKOIL''],
          PList [PStr ''GROUP'', PStr ''group'', PStr ''stock_shares'']])]),
      (''boards'', lkoh_boards)]"

definition renamed_security_json :: pyval where
  "renamed_security_json = PDict
     [(''description'', PDict [(''data'', PList
         [PList [PStr ''SECID'', PStr ''code'', PStr ''OLD''],
          PList [PStr ''SHORTNAME'', PStr ''name'', PStr ''LUKOIL''],
          PList [PStr ''SECID'', PStr ''code'', PStr ''LKOH''],
          PList [PStr ''GROUP'', PStr ''group'', PStr ''stock_shares'']])]),
      (''boards'', lkoh_boards)]"

definition lkoh_info :: security_info where
  "lkoh_info = \<lparr>secid = PStr ''LKOH'', shortname = PStr ''LUKOIL'', group = PStr ''stock_shares'',
                 market = PStr ''shares'', engine = PStr ''stock''\<rparr>"

text \<open>An exchange that answers every metadata request with the same instrument and has
  no candles and no history.\<close>

definition quiet_exchange :: network where
  "quiet_exchange past req =
     (case req of
        SecurityReq t \<Rightarrow> Response 200 (Some lkoh_security_json)
      | _ \<Rightarrow> Response 200 (Some (PDict [])))"

definition renamed_exchange :: network where
  "renamed_exchange past req = Response 200 (Some renamed_security_json)"

text \<open>The \<^verbatim>\<open>try\<close> statement around a data request catches what these responses raise: no
  response, a status from 400 to 599, a body that is not JSON.\<close>

definition request_fails :: "response \<Rightarrow> bool" where
  "request_fails r =
     (case r of
        NoResponse \<Rightarrow> True
      | Response status body \<Rightarrow> (400 \<le> status \<and> status < 600) \<or> body = None)"

text \<open>A response that decodes and whose section \<open>name\<close> has no rows.\<close>

definition empty_result :: "string \<Rightarrow> response \<Rightarrow> bool" where
  "empty_result name r =
     (case r of
        NoResponse \<Rightarrow> False
      | Response status body \<Rightarrow>
          \<not> (400 \<le> status \<and> status < 600) \<and>
          (case body of
             None \<Rightarrow> False
           | Some js \<Rightarrow>
               (case and_then (dict_get js name (PDict [])) (\<lambda>x. dict_get x ''data'' (PList [])) of
                  Inl e \<Rightarrow> False
                | Inr data \<Rightarrow> \<not> truthy data)))"

definition exact_floats :: float_lib where
  "exact_floats = \<lparr>float_of_int = (\<lambda>i. Inr (of_int i)),
                    float_of_str = (\<lambda>s. Inl (ValueError OtherValueError))\<rparr>"

definition lkoh_history_row :: "pyval list" where
  "lkoh_history_row =
     [PStr ''TQBR'', PStr ''2024-12-30'', PStr ''LUKOIL'', PStr ''LKOH'', PInt 53942,
      PFloat (11121299849 / 2), PInt 7011, PInt 7003, PInt 7260, PFloat (14481 / 2), PInt 7176,
      PInt 7235, PInt 774886, PInt 7170, PInt 7170, PNone, PInt 4876615920, PInt 4876615920,
      PNone, PInt 0, PInt 3, PStr ''SUR'', PFloat (339 / 100)]"

definition lkoh_history_json :: pyval where
  "lkoh_history_json = PDict [(''history'', PDict [(''data'', PList [PList lkoh_history_row])])]"

definition lkoh_candle :: pyval where
  "lkoh_candle = PList [PInt 6962, PInt 6963, PInt 6963, PFloat (13923 / 2), PFloat (974679 / 2),
      PInt 70, PStr ''2024-12-27 18:18:00'', PStr ''2024-12-27 18:18:59'']"

definition lkoh_candles_json :: pyval where
  "lkoh_candles_json = PDict [(''candles'', PDict [(''data'', PList [lkoh_candle])])]"

text \<open>An exchange with the instrument, one candle in every window and one history row.\<close>

definition lkoh_exchange :: network where
  "lkoh_exchange past req =
     (case req of
        SecurityReq t \<Rightarrow> Response 200 (Some lkoh_security_json)
      | CandlesReq e m t from till i \<Rightarrow> Response 200 (Some lkoh_candles_json)
      | HistoryReq e m t \<Rightarrow> Response 200 (Some lkoh_history_json))"

text \<open>The same without candles.\<close>

definition closed_exchange :: network where
  "closed_exchange past req =
     (case req of
        SecurityReq t \<Rightarrow> Response 200 (Some lkoh_security_json)
      | CandlesReq e m t from till i \<Rightarrow> Response 200 (Some (PDict []))
      | HistoryReq e m t \<Rightarrow> Response 200 (Some lkoh_history_json))"

text \<open>An exchange that answers metadata requests and no others.\<close>

definition failing_exchange :: network where
  "failing_exchange past req =
     (case req of
        SecurityReq t \<Rightarrow> Response 200 (Some lkoh_security_json)
      | _ \<Rightarrow> NoResponse)"

definition dec18_quarter_before :: datetime where
  "dec18_quarter_before =
     \<lparr>year = 2024, month = 12, day = 18, hour = 23, minute = 15, second = 15, microsecond = 7\<rparr>"

text \<open>The first exception among the results of expressions evaluated in order.\<close>

fun first_error :: "(exn + 'a) list \<Rightarrow> exn option" where
  "first_error [] = None"
| "first_error (Inl e # rs) = Some e"
| "first_error (Inr x # rs) = first_error rs"

definition halted_history_json :: pyval where
  "halted_history_json =
     PDict [(''history'', PDict [(''data'', PList [PList (lkoh_history_row [11 := PNone])])])]"

text \<open>An exchange whose last history row has no closing price.\<close>

definition halted_exchange :: network where
  "halted_exchange past req =
     (case req of
        SecurityReq t \<Rightarrow> Response 200 (Some lkoh_security_json)
      | CandlesReq e m t from till i \<Rightarrow> Response 200 (Some (PDict []))
      | HistoryReq e m t \<Rightarrow> Response 200 (Some halted_history_json))"




text \<open>The exceptions that indexing and calling a method raise.\<close>

definition shape_error :: "exn \<Rightarrow> bool" where
  "shape_error e = (e = TypeError \<or> e = IndexError \<or> e = KeyError \<or> e = AttributeError)"

section \<open>Arithmetic on datetimes\<close>

lemma days_in_month_12: "days_in_month y 12 = 31"
  by (simp add: days_in_month_def)

lemma prev_next_day:
  assumes v: "valid_date d" and n: "next_day d = Inr n"
  shows "prev_day (n\<lparr>hour := a, minute := b, second := c\<rparr>) = Inr (d\<lparr>hour := a, minute := b, second := c\<rparr>)"
proof -
  from v have y: "1 \<le> year d" and m: "1 \<le> month d" "month d \<le> 12"
    and dd: "1 \<le> day d" "day d \<le> days_in_month (year d) (month d)"
    by (simp_all add: valid_date_def)
  consider (a) "day d < days_in_month (year d) (month d)"
    | (b) "day d = days_in_month (year d) (month d)" "month d < 12"
    | (c) "day d = days_in_month (year d) (month d)" "month d = 12"
    using dd m by linarith
  then show ?thesis
  proof cases
    case a
    with n have "n = d\<lparr>day := day d + 1\<rparr>" by (simp add: next_day_def)
    then show ?thesis using dd by (simp add: prev_day_def)
  next
    case b
    with n have "n = d\<lparr>month := month d + 1, day := 1\<rparr>" by (simp add: next_day_def)
    then show ?thesis using m b by (simp add: prev_day_def)
  next
    case c
    with n have "n = d\<lparr>year := year d + 1, month := 1, day := 1\<rparr>"
      by (simp add: next_day_def split: if_splits)
    then show ?thesis using y c by (simp add: prev_day_def days_in_month_12)
  qed
qed

lemma nat_int_mod: "nat (int x mod 86400) = x mod 86400"
  by (simp add: nat_mod_distrib)

lemma plus_timedelta_same_day:
  assumes t: "int (hour d * 3600 + minute d * 60 + second d) + secs = int t" and lt: "t < 86400"
  shows "plus_timedelta d 0 secs =
           Inr (d\<lparr>hour := t div 3600, minute := (t mod 3600) div 60, second := t mod 60\<rparr>)"
proof -
  have a: "int t div 86400 = 0" using lt by simp
  have b: "nat (int t mod 86400) = t" using lt by (simp only: nat_int_mod mod_less)
  show ?thesis
    unfolding plus_timedelta_def Let_def t a b by simp
qed

lemma plus_hour_early:
  assumes "h < 23"
  shows "plus_timedelta (c\<lparr>hour := h, minute := 0, second := 0\<rparr>) 0 3600 =
           Inr (c\<lparr>hour := Suc h, minute := 0, second := 0\<rparr>)"
proof -
  have lt: "h * 3600 + 3600 < 86400" using assms by linarith
  have c1: "(h * 3600 + 3600) div 3600 = Suc h" by simp
  have c2: "(h * 3600 + 3600) mod 3600 = 0" by simp
  have "h * 3600 + 3600 = 60 * (h * 60 + 60)" by simp
  then have c3: "(h * 3600 + 3600) mod 60 = 0" by (simp only: mod_mult_self1_is_0)
  have "plus_timedelta (c\<lparr>hour := h, minute := 0, second := 0\<rparr>) 0 3600 =
          Inr (c\<lparr>hour := h, minute := 0, second := 0,
                 hour := (h * 3600 + 3600) div 3600,
                 minute := ((h * 3600 + 3600) mod 3600) div 60,
                 second := (h * 3600 + 3600) mod 60\<rparr>)"
    by (rule plus_timedelta_same_day [OF _ lt]) simp
  then show ?thesis by (simp only: c1 c2 c3) simp
qed

lemma minus_second_early:
  assumes "h < 23"
  shows "plus_timedelta (c\<lparr>hour := Suc h, minute := 0, second := 0\<rparr>) 0 (- 1) =
           Inr (c\<lparr>hour := h, minute := 59, second := 59\<rparr>)"
proof -
  have lt: "h * 3600 + 3599 < 86400" using assms by linarith
  have c1: "(h * 3600 + 3599) div 3600 = h" by simp
  have c2: "(h * 3600 + 3599) mod 3600 = 3599" by simp
  have "h * 3600 + 3599 = 59 + 60 * (h * 60 + 59)" by simp
  then have c3: "(h * 3600 + 3599) mod 60 = 59" by (simp only: mod_mult_self2) simp
  have "plus_timedelta (c\<lparr>hour := Suc h, minute := 0, second := 0\<rparr>) 0 (- 1) =
          Inr (c\<lparr>hour := Suc h, minute := 0, second := 0,
                 hour := (h * 3600 + 3599) div 3600,
                 minute := ((h * 3600 + 3599) mod 3600) div 60,
                 second := (h * 3600 + 3599) mod 60\<rparr>)"
    by (rule plus_timedelta_same_day [OF _ lt]) simp
  then show ?thesis by (simp only: c1 c2 c3) simp
qed

lemma plus_hour_late:
  "plus_timedelta (c\<lparr>hour := 23, minute := 0, second := 0\<rparr>) 0 3600 = next_day (c\<lparr>hour := 0, minute := 0, second := 0\<rparr>)"
  by (cases "next_day (c\<lparr>hour := 0, minute := 0, second := 0\<rparr>)")
     (simp_all add: plus_timedelta_def Let_def)

lemma minus_second_late:
  "plus_timedelta (n\<lparr>hour := 0, minute := 0, second := 0\<rparr>) 0 (- 1) = prev_day (n\<lparr>hour := 23, minute := 59, second := 59\<rparr>)"
  by (cases "prev_day (n\<lparr>hour := 23, minute := 59, second := 59\<rparr>)")
     (simp_all add: plus_timedelta_def Let_def)

lemma next_day_time:
  "next_day (d\<lparr>hour := a, minute := b, second := c\<rparr>) = (case next_day d of Inl e \<Rightarrow> Inl e | Inr n \<Rightarrow> Inr (n\<lparr>hour := a, minute := b, second := c\<rparr>))"
  by (simp add: next_day_def)

lemma next_day_ok: "valid_date d \<Longrightarrow> \<not> last_date d \<Longrightarrow> \<exists>n. next_day d = Inr n"
  by (auto simp: valid_date_def last_date_def next_day_def days_in_month_12)

lemma window_end:
  assumes v: "valid_date c" and l: "\<not> last_date c" and h: "h < 24"
  shows "\<exists>t. plus_timedelta (c\<lparr>hour := h, minute := 0, second := 0\<rparr>) 0 3600 = Inr t \<and>
             plus_timedelta t 0 (- 1) = Inr (c\<lparr>hour := h, minute := 59, second := 59\<rparr>)"
proof (cases "h < 23")
  case True
  then show ?thesis by (simp add: plus_hour_early minus_second_early)
next
  case False
  with h have h23: "h = 23" by simp
  from next_day_ok [OF v l] obtain n where n: "next_day c = Inr n" by blast
  have "plus_timedelta (c\<lparr>hour := 23, minute := 0, second := 0\<rparr>) 0 3600 = Inr (n\<lparr>hour := 0, minute := 0, second := 0\<rparr>)"
    by (simp add: plus_hour_late next_day_time n)
  moreover have "plus_timedelta (n\<lparr>hour := 0, minute := 0, second := 0\<rparr>) 0 (- 1) = Inr (c\<lparr>hour := 23, minute := 59, second := 59\<rparr>)"
    by (simp add: minus_second_late prev_next_day [OF v n])
  ultimately show ?thesis using h23 by simp
qed


section \<open>The window planner\<close>

lemma hour_loop_valid:
  assumes v: "valid_date c" and l: "\<not> last_date c"
  shows "\<forall>h\<in>set hs. h < 24 \<Longrightarrow>
         hour_loop body c e hs s = run_windows body (map (window_of c) (open_hours c e hs)) s"
proof (induction hs arbitrary: s)
  case Nil
  then show ?case by (simp add: open_hours_def)
next
  case (Cons h hs)
  then have h: "h < 24" by simp
  from window_end [OF v l h] obtain t where
    t: "plus_timedelta (c\<lparr>hour := h, minute := 0, second := 0\<rparr>) 0 3600 = Inr t"
       "plus_timedelta t 0 (- 1) = Inr (c\<lparr>hour := h, minute := 59, second := 59\<rparr>)" by blast
  show ?case
  proof (cases "dt_gt (c\<lparr>hour := h, minute := 0, second := 0\<rparr>) e")
    case True
    then show ?thesis using t by (simp add: open_hours_def)
  next
    case False
    have IH: "\<And>s. hour_loop body c e hs s = run_windows body (map (window_of c) (open_hours c e hs)) s"
      using Cons by simp
    show ?thesis using t False
      by (simp add: open_hours_def window_of_def IH [unfolded open_hours_def window_of_def] split: prod.splits option.splits)
  qed
qed


lemma valid_datetime_date: "valid_datetime d \<Longrightarrow> valid_date d"
  by (simp add: valid_datetime_def valid_date_def)

lemma dt_gt_same_day:
  "dt_gt (d\<lparr>hour := h, minute := 0, second := 0\<rparr>) d = (hour d < h)"
  by (auto simp: dt_gt_def dt_fields_def)

lemma takeWhile_le_upt: "takeWhile (\<lambda>h. h \<le> H) [a..<b] = [a..<min b (Suc H)]"
proof (induction b)
  case 0
  then show ?case by simp
next
  case (Suc b)
  show ?case
  proof (cases "a \<le> b")
    case False
    then show ?thesis by simp
  next
    case True
    then have split: "[a..<Suc b] = [a..<b] @ [b]" by simp
    show ?thesis
    proof (cases "b \<le> H")
      case True
      then have "takeWhile (\<lambda>h. h \<le> H) [a..<Suc b] = [a..<b] @ [b]"
        unfolding split by (simp add: takeWhile_append)
      moreover have "min (Suc b) (Suc H) = Suc b" using True by simp
      ultimately show ?thesis using split by simp
    next
      case False
      then have "takeWhile (\<lambda>h. h \<le> H) [a..<Suc b] = takeWhile (\<lambda>h. h \<le> H) [a..<b]"
        unfolding split by (auto simp: takeWhile_append takeWhile_eq_all_conv [THEN iffD2, symmetric])
      moreover have "min (Suc b) (Suc H) = Suc H" "min b (Suc H) = Suc H" using False by simp_all
      ultimately show ?thesis using Suc.IH by simp
    qed
  qed
qed

lemma open_hours_same_day:
  "hour d < 24 \<Longrightarrow> open_hours d d [10..<24] = [10..<Suc (hour d)]"
proof -
  assume h: "hour d < 24"
  have "open_hours d d [10..<24] = takeWhile (\<lambda>h. h \<le> hour d) [10..<24]"
    by (simp only: open_hours_def dt_gt_same_day not_less)
  also have "\<dots> = [10..<min 24 (Suc (hour d))]" by (rule takeWhile_le_upt)
  also have "min 24 (Suc (hour d)) = Suc (hour d)" using h by simp
  finally show ?thesis .
qed

lemma run_record_window: "run_windows record_window ws acc = (None, acc @ ws)"
  by (induction ws arbitrary: acc) (simp_all add: record_window_def)

lemma plus_one_day_valid:
  assumes v: "valid_datetime d" and l: "\<not> last_date d"
  shows "\<exists>n. plus_timedelta d 1 0 = Inr n \<and> date_before d n"
proof -
  let ?t = "hour d * 3600 + minute d * 60 + second d"
  from v have "hour d < 24" "minute d < 60" "second d < 60"
    by (simp_all add: valid_datetime_def)
  then have lt: "?t < 86400" by linarith
  have a: "int ?t div 86400 = 0" using lt by simp
  from next_day_ok [OF valid_datetime_date [OF v] l] obtain n where n: "next_day d = Inr n" by blast
  have "plus_timedelta d 1 0 \<noteq> Inl OverflowError \<or> True" by simp
  have nx: "next_day (d\<lparr>hour := x, minute := y, second := z\<rparr>) = Inr (n\<lparr>hour := x, minute := y, second := z\<rparr>)" for x y z
    by (simp add: next_day_time n)
  have "\<exists>m. plus_timedelta d 1 0 = Inr m"
    unfolding plus_timedelta_def Let_def by (simp add: a nx del: of_nat_add of_nat_mult)
  then obtain m where m: "plus_timedelta d 1 0 = Inr m" by blast
  with plus_one_day_before [OF m] show ?thesis by blast
qed

lemma date_before_not_le: "date_before d n \<Longrightarrow> \<not> dt_le n d"
  by (auto simp: date_before_def dt_le_def dt_fields_def)

lemma dt_le_refl: "dt_le d d"
  by (simp add: dt_le_def)

lemma plan_same_day:
  assumes v: "valid_datetime d" and l: "\<not> last_date d"
  shows "plan d d = (None, map (window_of d) [10..<Suc (hour d)])"
proof -
  from v have h: "hour d < 24" by (simp add: valid_datetime_def)
  have hl: "hour_loop record_window d d [10..<24] [] = (None, map (window_of d) [10..<Suc (hour d)])"
  proof -
    have "\<forall>k\<in>set [10..<24]. k < 24" by simp
    from hour_loop_valid [OF valid_datetime_date [OF v] l this]
    have "hour_loop record_window d d [10..<24] [] =
            run_windows record_window (map (window_of d) (open_hours d d [10..<24])) []" .
    then show ?thesis by (simp only: open_hours_same_day [OF h] run_record_window append_Nil)
  qed
  from plus_one_day_valid [OF v l] obtain n where
    n: "plus_timedelta d 1 0 = Inr n" "date_before d n" by blast
  have stop: "day_loop record_window n d ws = (None, ws)" for ws
    using date_before_not_le [OF n(2)] by (subst day_loop.simps) simp
  show ?thesis
    unfolding plan_def
    by (subst day_loop.simps)
       (simp only: dt_le_refl if_True hl n(1) stop prod.case option.case sum.case)
qed


lemma dt_gt_window_starts:
  "dt_gt (fst (window_of d h')) (fst (window_of d h)) = (h < h')"
  by (auto simp: dt_gt_def dt_fields_def window_of_def)

lemma sorted_windows: "sorted_wrt (\<lambda>w w'. dt_gt (fst w') (fst w)) (map (window_of d) [a..<b])"
  by (simp add: sorted_wrt_map dt_gt_window_starts)

lemma window_width:
  "seconds_of_day (snd (window_of d h)) = seconds_of_day (fst (window_of d h)) + 3599 \<and>
   same_date (fst (window_of d h)) (snd (window_of d h)) \<and>
   microsecond (snd (window_of d h)) = microsecond (fst (window_of d h))"
  by (simp add: window_of_def seconds_of_day_def same_date_def)

text \<open>
  C1 (as amended). For a datetime \<open>d\<close> that is not on the last representable day, the
  planner run from \<open>d\<close> to \<open>d\<close> yields one window per hour from 10 up to the hour of \<open>d\<close>,
  each from \<open>h:00:00\<close> to \<open>h:59:59\<close> of that day (3599 seconds), in strictly increasing
  order of start. There are 14 of them exactly when \<open>d\<close> lies in hour 23.
\<close>

theorem plan_single_day:
  assumes "valid_datetime d" and "\<not> last_date d"
  shows "plan d d = (None, map (window_of d) [10..<Suc (hour d)]) \<and>
         length (snd (plan d d)) = Suc (hour d) - 10 \<and>
         (length (snd (plan d d)) = 14) = (hour d = 23) \<and>
         sorted_wrt (\<lambda>w w'. dt_gt (fst w') (fst w)) (snd (plan d d)) \<and>
         (\<forall>w\<in>set (snd (plan d d)).
            seconds_of_day (snd w) = seconds_of_day (fst w) + 3599 \<and>
            same_date (fst w) (snd w) \<and> same_date d (fst w) \<and>
            microsecond (snd w) = microsecond (fst w))"
proof -
  have p: "plan d d = (None, map (window_of d) [10..<Suc (hour d)])"
    using assms by (rule plan_same_day)
  have h: "hour d < 24" using assms(1) by (simp add: valid_datetime_def)
  have n: "(Suc (hour d) - 10 = 14) = (hour d = 23)" by auto
  have w: "\<forall>w\<in>set (map (window_of d) [10..<Suc (hour d)]).
            seconds_of_day (snd w) = seconds_of_day (fst w) + 3599 \<and>
            same_date (fst w) (snd w) \<and> same_date d (fst w) \<and>
            microsecond (snd w) = microsecond (fst w)"
    by (auto simp: window_of_def seconds_of_day_def same_date_def)
  show ?thesis
    unfolding p snd_conv length_map length_upt n
    by (intro conjI refl sorted_windows w)
qed

lemma dec18_evening_valid: "valid_datetime dec18_evening \<and> \<not> last_date dec18_evening"
  by (simp add: dec18_evening_def valid_datetime_def last_date_def days_in_month_def)

theorem plan_single_day_witness:
  "valid_datetime dec18_evening \<and> \<not> last_date dec18_evening \<and>
   fst (plan dec18_evening dec18_evening) = None \<and>
   length (snd (plan dec18_evening dec18_evening)) = 14 \<and>
   hd (snd (plan dec18_evening dec18_evening)) = window_of dec18_evening 10"
proof -
  have v: "valid_datetime dec18_evening" and l: "\<not> last_date dec18_evening"
    using dec18_evening_valid by simp_all
  have h: "hour dec18_evening = 23" by (simp add: dec18_evening_def)
  from plan_single_day [OF v l] have
    "plan dec18_evening dec18_evening = (None, map (window_of dec18_evening) [10..<24])"
    by (simp only: h) simp
  then show ?thesis using v l by (simp add: upt_rec)
qed

text \<open>
  C1 as stated fails: for 18 December 2024 given as a date, that is at midnight, the first
  window would start at 10:00, after the end of the range, and the loop stops at once.
\<close>

theorem plan_midnight_counterexample:
  "plan dec18_midnight dec18_midnight = (None, []) \<and>
   length (snd (plan dec18_midnight dec18_midnight)) \<noteq> 14"
proof -
  have v: "valid_datetime dec18_midnight" and l: "\<not> last_date dec18_midnight"
    by (simp_all add: dec18_midnight_def valid_datetime_def last_date_def days_in_month_def)
  have h: "hour dec18_midnight = 0" by (simp add: dec18_midnight_def)
  from plan_same_day [OF v l] have "plan dec18_midnight dec18_midnight = (None, [])"
    by (simp only: h) simp
  then show ?thesis by simp
qed

subsection \<open>Invariants of the loops\<close>

lemma hour_loop_inv:
  assumes "I s"
    and "\<And>h et s s' x. I s \<Longrightarrow> h \<in> set hs \<Longrightarrow>
           \<not> dt_gt (c\<lparr>hour := h, minute := 0, second := 0\<rparr>) e \<Longrightarrow>
           is_window_end (c\<lparr>hour := h, minute := 0, second := 0\<rparr>) et \<Longrightarrow>
           body (c\<lparr>hour := h, minute := 0, second := 0\<rparr>) et s = (x, s') \<Longrightarrow> I s'"
  shows "I (snd (hour_loop body c e hs s))"
  using assms
proof (induction hs arbitrary: s)
  case Nil
  then show ?case by simp
next
  case (Cons h hs)
  have step: "\<And>et s s' x. I s \<Longrightarrow>
           \<not> dt_gt (c\<lparr>hour := h, minute := 0, second := 0\<rparr>) e \<Longrightarrow>
           is_window_end (c\<lparr>hour := h, minute := 0, second := 0\<rparr>) et \<Longrightarrow>
           body (c\<lparr>hour := h, minute := 0, second := 0\<rparr>) et s = (x, s') \<Longrightarrow> I s'"
  proof -
    fix et s s' x
    assume a: "I s" "\<not> dt_gt (c\<lparr>hour := h, minute := 0, second := 0\<rparr>) e"
      "is_window_end (c\<lparr>hour := h, minute := 0, second := 0\<rparr>) et"
      "body (c\<lparr>hour := h, minute := 0, second := 0\<rparr>) et s = (x, s')"
    have k: "h \<in> set (h # hs)" by simp
    show "I s'" using Cons.prems(2) [OF a(1) k a(2) a(3) a(4)] .
  qed
  have rest: "\<And>s. I s \<Longrightarrow> I (snd (hour_loop body c e hs s))"
  proof (rule Cons.IH)
    fix s assume "I s" then show "I s" .
  next
    fix s k et s0 s' x
    assume a: "I s0" "k \<in> set hs" "\<not> dt_gt (c\<lparr>hour := k, minute := 0, second := 0\<rparr>) e"
      "is_window_end (c\<lparr>hour := k, minute := 0, second := 0\<rparr>) et"
      "body (c\<lparr>hour := k, minute := 0, second := 0\<rparr>) et s0 = (x, s')"
    from a(2) have k: "k \<in> set (h # hs)" by simp
    show "I s'" using Cons.prems(2) [OF a(1) k a(3) a(4) a(5)] .
  qed
  let ?st = "c\<lparr>hour := h, minute := 0, second := 0\<rparr>"
  show ?case
  proof (cases "plus_timedelta ?st 0 3600")
    case (Inl a)
    then show ?thesis using Cons.prems(1) by (simp add: Let_def)
  next
    case t: (Inr t)
    show ?thesis
    proof (cases "plus_timedelta t 0 (- 1)")
      case (Inl a)
      then show ?thesis using Cons.prems(1) t by (simp add: Let_def)
    next
      case et: (Inr et)
      show ?thesis
      proof (cases "dt_gt ?st e")
        case True
        then show ?thesis using Cons.prems(1) t et by (simp add: Let_def)
      next
        case False
        obtain x s' where b: "body ?st et s = (x, s')" by (cases "body ?st et s")
        have we: "is_window_end ?st et" using t et by (simp add: is_window_end_def)
        have I': "I s'" using step [OF Cons.prems(1) False we b] .
        show ?thesis
        proof (cases x)
          case None
          then show ?thesis using t et False b rest [OF I'] by (simp add: Let_def)
        next
          case (Some a)
          then show ?thesis using t et False b I' by (simp add: Let_def)
        qed
      qed
    qed
  qed
qed

lemma day_loop_inv:
  assumes "I s"
    and "\<And>c h et s s' x. I s \<Longrightarrow> h \<in> set [10..<24] \<Longrightarrow>
           \<not> dt_gt (c\<lparr>hour := h, minute := 0, second := 0\<rparr>) e \<Longrightarrow>
           is_window_end (c\<lparr>hour := h, minute := 0, second := 0\<rparr>) et \<Longrightarrow>
           body (c\<lparr>hour := h, minute := 0, second := 0\<rparr>) et s = (x, s') \<Longrightarrow> I s'"
  shows "I (snd (day_loop body c e s))"
  using assms
proof (induction body c e s rule: day_loop.induct)
  case (1 body c e s)
  note step = "1.prems"(2)
  show ?case
  proof (cases "dt_le c e")
    case False
    then show ?thesis using "1.prems"(1) by (subst day_loop.simps) simp
  next
    case True
    obtain x s1 where hl: "hour_loop body c e [10..<24] s = (x, s1)"
      by (cases "hour_loop body c e [10..<24] s")
    have I1: "I s1"
    proof -
      have "I (snd (hour_loop body c e [10..<24] s))"
      proof (rule hour_loop_inv [where I = I, OF "1.prems"(1)])
        fix h et s s' x
        assume "I s" "h \<in> set [10..<24]"
          "\<not> dt_gt (c\<lparr>hour := h, minute := 0, second := 0\<rparr>) e"
          "is_window_end (c\<lparr>hour := h, minute := 0, second := 0\<rparr>) et"
          "body (c\<lparr>hour := h, minute := 0, second := 0\<rparr>) et s = (x, s')"
        then show "I s'" by (rule step)
      qed
      then show ?thesis by (simp only: hl snd_conv)
    qed
    show ?thesis
    proof (cases x)
      case (Some a)
      then show ?thesis using True hl I1
        by (subst day_loop.simps) (simp only: if_True prod.case option.case snd_conv)
    next
      case None
      show ?thesis
      proof (cases "plus_timedelta c 1 0")
        case (Inl a)
        then show ?thesis using True hl I1 None
          by (subst day_loop.simps) (simp only: if_True prod.case option.case sum.case snd_conv)
      next
        case (Inr n)
        have "I (snd (day_loop body n e s1))"
          by (rule "1.IH" [OF True hl [symmetric] None Inr I1]) (rule step)
        then show ?thesis using True hl None Inr
          by (subst day_loop.simps) (simp only: if_True prod.case option.case sum.case snd_conv)
      qed
    qed
  qed
qed


lemma dt_le_iff_not_gt: "dt_le a b = (\<not> dt_gt a b)"
  by (auto simp: dt_le_def dt_gt_def dt_fields_def)

lemma dt_gt_earlier_hour:
  "dt_gt (a\<lparr>hour := h\<rparr>) e \<Longrightarrow> \<not> dt_gt a e \<Longrightarrow> hour a < h"
  by (auto simp: dt_gt_def dt_fields_def)

lemma plan_starts_not_after: "\<forall>w\<in>set (snd (plan sd ed)). \<not> dt_gt (fst w) ed"
  unfolding plan_def
proof (rule day_loop_inv [where I = "\<lambda>ws. \<forall>w\<in>set ws. \<not> dt_gt (fst w) ed"])
  show "\<forall>w\<in>set []. \<not> dt_gt (fst w) ed" by simp
next
  fix c h et s s' x
  assume "\<forall>w\<in>set s. \<not> dt_gt (fst w) ed"
    "\<not> dt_gt (c\<lparr>hour := h, minute := 0, second := 0\<rparr>) ed"
    "is_window_end (c\<lparr>hour := h, minute := 0, second := 0\<rparr>) et"
    "record_window (c\<lparr>hour := h, minute := 0, second := 0\<rparr>) et s = (x, s')"
  then show "\<forall>w\<in>set s'. \<not> dt_gt (fst w) ed"
    by (auto simp: record_window_def)
qed

lemma hour_loop_break:
  "dt_gt (c\<lparr>hour := h, minute := 0, second := 0\<rparr>) e \<Longrightarrow>
   snd (hour_loop body c e (h # hs) s) = s"
  by (cases "plus_timedelta (c\<lparr>hour := h, minute := 0, second := 0\<rparr>) 0 3600";
      cases "plus_timedelta (projr (plus_timedelta (c\<lparr>hour := h, minute := 0, second := 0\<rparr>) 0 3600)) 0 (- 1)")
     (simp_all add: Let_def)

text \<open>
  C3. No window the planner emits starts after \<open>end_date\<close>. On a day, once the start of an
  hour's window exceeds \<open>end_date\<close> the loop over the hours is left: no window of that or
  a later hour of the day is emitted, and whatever hours remain are not visited.
\<close>

theorem plan_within_range:
  "(\<forall>w\<in>set (snd (plan sd ed)). dt_le (fst w) ed) \<and>
   (\<forall>w\<in>set (snd (plan sd ed)). \<forall>h. dt_gt ((fst w)\<lparr>hour := h\<rparr>) ed \<longrightarrow> hour (fst w) < h) \<and>
   (\<forall>c h hs ws. dt_gt (c\<lparr>hour := h, minute := 0, second := 0\<rparr>) ed \<longrightarrow>
      snd (hour_loop record_window c ed (h # hs) ws) = ws)"
proof (intro conjI allI impI ballI)
  fix w assume "w \<in> set (snd (plan sd ed))"
  then show "dt_le (fst w) ed"
    using plan_starts_not_after [of sd ed] by (simp add: dt_le_iff_not_gt)
next
  fix w h assume "w \<in> set (snd (plan sd ed))" and g: "dt_gt ((fst w)\<lparr>hour := h\<rparr>) ed"
  then have "\<not> dt_gt (fst w) ed" using plan_starts_not_after [of sd ed] by simp
  with g show "hour (fst w) < h" by (rule dt_gt_earlier_hour)
next
  fix c h hs ws assume "dt_gt (c\<lparr>hour := h, minute := 0, second := 0\<rparr>) ed"
  then show "snd (hour_loop record_window c ed (h # hs) ws) = ws" by (rule hour_loop_break)
qed

lemma dec18_late_morning_valid:
  "valid_datetime dec18_late_morning \<and> \<not> last_date dec18_late_morning"
  by (simp add: dec18_late_morning_def valid_datetime_def last_date_def days_in_month_def)

theorem plan_within_range_witness:
  "snd (plan dec18_late_morning dec18_late_morning) =
     [window_of dec18_late_morning 10, window_of dec18_late_morning 11] \<and>
   dt_le (fst (window_of dec18_late_morning 10)) dec18_late_morning \<and>
   dt_le (fst (window_of dec18_late_morning 11)) dec18_late_morning \<and>
   dt_gt (dec18_late_morning\<lparr>hour := 12, minute := 0, second := 0\<rparr>) dec18_late_morning \<and>
   snd (hour_loop record_window dec18_late_morning dec18_late_morning [12, 13]
          [window_of dec18_late_morning 10, window_of dec18_late_morning 11]) =
     [window_of dec18_late_morning 10, window_of dec18_late_morning 11]"
proof -
  have v: "valid_datetime dec18_late_morning" and l: "\<not> last_date dec18_late_morning"
    using dec18_late_morning_valid by simp_all
  have h: "hour dec18_late_morning = 11" by (simp add: dec18_late_morning_def)
  from plan_same_day [OF v l] have
    "plan dec18_late_morning dec18_late_morning = (None, map (window_of dec18_late_morning) [10..<12])"
    by (simp only: h) simp
  then have p: "snd (plan dec18_late_morning dec18_late_morning) =
     [window_of dec18_late_morning 10, window_of dec18_late_morning 11]"
    by (simp add: upt_rec)
  have g: "dt_gt (dec18_late_morning\<lparr>hour := 12, minute := 0, second := 0\<rparr>) dec18_late_morning"
    by (simp add: dt_gt_same_day h)
  from plan_within_range [of dec18_late_morning dec18_late_morning] p g
  show ?thesis by simp
qed

section \<open>Instrument metadata\<close>

lemma security_of_lkoh: "security_of_json lkoh_security_json = Inr lkoh_info"
  by (simp add: security_of_json_def lkoh_security_json_def lkoh_boards_def lkoh_info_def
      and_then_def get_or_None_def)


lemma and_then_Inr: "and_then r f = Inr y \<Longrightarrow> \<exists>x. r = Inr x \<and> f x = Inr y"
  by (cases r) (simp_all add: and_then_def)

lemma and_then_simps [simp]: "and_then (Inl e) f = Inl e" "and_then (Inr x) f = f x"
  by (simp_all add: and_then_def)

lemma description_dict_lookup:
  "description_dict items m = Inr m' \<Longrightarrow>
   m' (PStr name) =
     (case filter (\<lambda>item. getitem_int item 0 = Inr (PStr name)) items of
        [] \<Rightarrow> m (PStr name)
      | ms \<Rightarrow> (case getitem_int (last ms) 2 of Inr v \<Rightarrow> Some v | Inl e \<Rightarrow> None))"
proof (induction items arbitrary: m)
  case Nil
  then show ?case by simp
next
  case (Cons item items)
  from Cons.prems obtain k v where k: "getitem_int item 0 = Inr k" and v: "getitem_int item 2 = Inr v"
    and h: "hashable k" and rest: "description_dict items (m(k \<mapsto> v)) = Inr m'"
    by (auto dest!: and_then_Inr split: if_splits)
  note IH = Cons.IH [OF rest]
  show ?case
  proof (cases "filter (\<lambda>item. getitem_int item 0 = Inr (PStr name)) items")
    case Nil
    then show ?thesis using IH k v by (auto split: list.splits)
  next
    case (Cons a list)
    then show ?thesis using IH k by (auto split: list.splits)
  qed
qed

lemma get_or_None_description:
  "description_dict items Map.empty = Inr m \<Longrightarrow> get_or_None m name = last_triple_value name items"
  by (drule description_dict_lookup [where name = name])
     (auto simp: get_or_None_def last_triple_value_def split: list.splits sum.splits)

lemma security_of_json_fields:
  assumes "security_of_json data = Inr info"
    and "getitem_str data ''description'' = Inr d"
    and "getitem_str d ''data'' = Inr triples"
    and "iterate triples = Inr items"
  shows "secid info = last_triple_value ''SECID'' items \<and>
         shortname info = last_triple_value ''SHORTNAME'' items \<and>
         group info = last_triple_value ''GROUP'' items"
proof -
  from assms(1) obtain m where m: "description_dict items Map.empty = Inr m"
    and s: "secid info = get_or_None m ''SECID''"
           "shortname info = get_or_None m ''SHORTNAME''"
           "group info = get_or_None m ''GROUP''"
    unfolding security_of_json_def
    apply (simp only: assms(2-4))
    apply (auto dest!: and_then_Inr simp: Let_def assms(2-4) split: if_splits)
    done
  show ?thesis using get_or_None_description [OF m] s by simp
qed


lemma security_of_response:
  assumes "get_security_info net (PStr t) w = (Inr info, w')"
    and "net (sent w) (SecurityReq t) = Response status (Some data)"
  shows "security_of_json data = Inr info"
  using assms
  by (auto simp: get_security_info_def send_def json_of_def split: if_splits)

text \<open>
  C10. When the description section of the response holds several triples with the same
  field name, the value \<^verbatim>\<open>get_security_info\<close> returns for \<open>SECID\<close>, \<open>SHORTNAME\<close> and \<open>GROUP\<close>
  is that of the last such triple.
\<close>

theorem description_last_wins:
  assumes "get_security_info net (PStr t) w = (Inr info, w')"
    and "net (sent w) (SecurityReq t) = Response status (Some data)"
    and "getitem_str data ''description'' = Inr d"
    and "getitem_str d ''data'' = Inr triples"
    and "iterate triples = Inr items"
  shows "secid info = last_triple_value ''SECID'' items \<and>
         shortname info = last_triple_value ''SHORTNAME'' items \<and>
         group info = last_triple_value ''GROUP'' items"
  using security_of_json_fields [OF security_of_response [OF assms(1,2)] assms(3-5)] .

lemma security_of_renamed: "security_of_json renamed_security_json = Inr lkoh_info"
  by (simp add: security_of_json_def renamed_security_json_def lkoh_boards_def lkoh_info_def
      get_or_None_def)

theorem description_last_wins_witness:
  "get_security_info renamed_exchange (PStr ''LKOH'') idle =
     (Inr lkoh_info, idle\<lparr>sent := [SecurityReq ''LKOH'']\<rparr>) \<and>
   secid lkoh_info = PStr ''LKOH'' \<and>
   last_triple_value ''SECID''
     [PList [PStr ''SECID'', PStr ''code'', PStr ''OLD''],
      PList [PStr ''SHORTNAME'', PStr ''name'', PStr ''LUKOIL''],
      PList [PStr ''SECID'', PStr ''code'', PStr ''LKOH''],
      PList [PStr ''GROUP'', PStr ''group'', PStr ''stock_shares'']] = PStr ''LKOH''"
proof -
  let ?items = "[PList [PStr ''SECID'', PStr ''code'', PStr ''OLD''],
      PList [PStr ''SHORTNAME'', PStr ''name'', PStr ''LUKOIL''],
      PList [PStr ''SECID'', PStr ''code'', PStr ''LKOH''],
      PList [PStr ''GROUP'', PStr ''group'', PStr ''stock_shares'']]"
  have g: "get_security_info renamed_exchange (PStr ''LKOH'') idle =
     (Inr lkoh_info, idle\<lparr>sent := [SecurityReq ''LKOH'']\<rparr>)"
    by (simp add: get_security_info_def send_def json_of_def renamed_exchange_def idle_def
        security_of_renamed)
  have n: "renamed_exchange (sent idle) (SecurityReq ''LKOH'') = Response 200 (Some renamed_security_json)"
    by (simp add: renamed_exchange_def)
  have d: "getitem_str renamed_security_json ''description'' = Inr (PDict [(''data'', PList ?items)])"
    by (simp add: renamed_security_json_def)
  have t: "getitem_str (PDict [(''data'', PList ?items)]) ''data'' = Inr (PList ?items)"
    by simp
  have i: "iterate (PList ?items) = Inr ?items" by simp
  from description_last_wins [OF g n d t i] g show ?thesis by (simp add: lkoh_info_def)
qed

lemma and_then_not:
  "r \<noteq> Inl e \<Longrightarrow> (\<And>x. f x \<noteq> Inl e) \<Longrightarrow> and_then r f \<noteq> Inl e"
  by (cases r) simp_all

lemma getitem_int_no_ve: "getitem_int v i \<noteq> Inl (ValueError m)"
  by (cases v) simp_all

lemma getitem_str_no_ve: "getitem_str v k \<noteq> Inl (ValueError m)"
  by (cases v) (simp_all split: option.splits)

lemma contains_str_no_ve: "contains_str v k \<noteq> Inl (ValueError m)"
  by (cases v) simp_all

lemma iterate_no_ve: "iterate v \<noteq> Inl (ValueError m)"
  by (cases v) simp_all

lemma py_len_no_ve: "py_len v \<noteq> Inl (ValueError m)"
  by (cases v) simp_all

lemma description_dict_no_ve: "description_dict items d \<noteq> Inl (ValueError m)"
proof (induction items arbitrary: d)
  case Nil
  then show ?case by simp
next
  case (Cons item items)
  show ?case
    by (simp only: description_dict.simps)
       (intro and_then_not getitem_int_no_ve, simp add: Cons.IH)
qed

lemma if_not: "(c \<Longrightarrow> a \<noteq> e) \<Longrightarrow> (\<not> c \<Longrightarrow> b \<noteq> e) \<Longrightarrow> (if c then a else b) \<noteq> e"
  by simp

lemma security_of_json_not_arg: "security_of_json data \<noteq> Inl (ValueError TickerNotStr)"
  unfolding security_of_json_def Let_def
  by (intro and_then_not if_not contains_str_no_ve getitem_str_no_ve getitem_int_no_ve
        iterate_no_ve description_dict_no_ve py_len_no_ve)
     simp_all

text \<open>
  C6 (as amended). \<^verbatim>\<open>get_security_info\<close> raises the \<^verbatim>\<open>ValueError\<close> of line 23 for every
  argument that is not a string, and sends nothing. A string passes that check whatever
  it holds, the empty string included: the request for it is sent, and what the function
  returns or raises then depends on the response alone.
\<close>

theorem ticker_check:
  "(\<forall>v. (\<forall>t. v \<noteq> PStr t) \<longrightarrow>
        get_security_info net v w = (Inl (ValueError TickerNotStr), w)) \<and>
   (\<forall>t. sent (snd (get_security_info net (PStr t) w)) = sent w @ [SecurityReq t] \<and>
        fst (get_security_info net (PStr t) w) \<noteq> Inl (ValueError TickerNotStr))"
proof (intro conjI allI impI)
  fix v assume "\<forall>t. v \<noteq> PStr t"
  then show "get_security_info net v w = (Inl (ValueError TickerNotStr), w)"
    by (cases v) (simp_all add: get_security_info_def)
next
  fix t
  show "sent (snd (get_security_info net (PStr t) w)) = sent w @ [SecurityReq t]"
    by (simp add: get_security_info_def send_def json_of_def split: response.splits option.splits)
next
  fix t
  show "fst (get_security_info net (PStr t) w) \<noteq> Inl (ValueError TickerNotStr)"
    by (simp add: get_security_info_def send_def json_of_def security_of_json_not_arg
        split: response.splits option.splits)
qed

lemma get_security_info_quiet:
  "get_security_info quiet_exchange (PStr t) w = (Inr lkoh_info, w\<lparr>sent := sent w @ [SecurityReq t]\<rparr>)"
  by (simp add: get_security_info_def send_def json_of_def quiet_exchange_def security_of_lkoh)

theorem ticker_check_witness:
  "get_security_info quiet_exchange (PInt 5) idle = (Inl (ValueError TickerNotStr), idle) \<and>
   get_security_info quiet_exchange PNone idle = (Inl (ValueError TickerNotStr), idle) \<and>
   sent (snd (get_security_info quiet_exchange (PStr ''LKOH'') idle)) = [SecurityReq ''LKOH''] \<and>
   sent (snd (get_security_info quiet_exchange (PStr '''') idle)) = [SecurityReq '''']"
  using ticker_check [of quiet_exchange idle]
  by (simp add: idle_def)

text \<open>
  C6 as stated fails: nothing rejects the empty string. Where the exchange answers the
  request for it with a well-formed description, the function returns normally.
\<close>

theorem empty_ticker_counterexample:
  "get_security_info quiet_exchange (PStr '''') idle =
     (Inr lkoh_info, idle\<lparr>sent := [SecurityReq '''']\<rparr>)"
  by (simp add: get_security_info_quiet idle_def)

section \<open>Saving\<close>

lemma chosen_path_Inr:
  "(chosen_path cwd ticker file_path = Inr p) =
     ((file_path \<noteq> PNone \<and> p = GivenPath file_path) \<or>
      (file_path = PNone \<and> cwd \<noteq> None \<and> p = DefaultPath (the cwd) ticker))"
  by (cases cwd) (auto simp: chosen_path_def)

lemma save_not_a_frame:
  assumes "chosen_path cwd ticker file_path = Inr p"
    and "\<forall>cols rows. candles \<noteq> PDataFrame cols rows"
  shows "get_candles_save cwd can_write console candles ticker file_path w =
           (case console NotADataFrame of
              None \<Rightarrow> (Inr (), say NotADataFrame w)
            | Some e \<Rightarrow> (Inl e, w))"
  using assms
  by (cases candles; cases "console NotADataFrame")
     (simp_all add: get_candles_save_def print_to_def)

lemma save_write_fails:
  assumes "chosen_path cwd ticker file_path = Inr p"
    and "candles = PDataFrame cols rows"
    and "\<not> can_write p"
  shows "get_candles_save cwd can_write console candles ticker file_path w =
           (case console SaveError of
              None \<Rightarrow> (Inr (), say SaveError w)
            | Some e \<Rightarrow> (Inl e, w))"
  using assms
  by (cases "console SaveError")
     (simp_all add: get_candles_save_def print_to_def write_and_report_def)

lemma save_written:
  assumes "chosen_path cwd ticker file_path = Inr p"
    and "candles = PDataFrame cols rows"
    and "can_write p"
  shows "get_candles_save cwd can_write console candles ticker file_path w =
           (case console (Saved p) of
              None \<Rightarrow> (Inr (), say (Saved p) (w\<lparr>files := files w @ [(p, candles)]\<rparr>))
            | Some e \<Rightarrow>
                (case console SaveError of
                   None \<Rightarrow> (Inr (), say SaveError (w\<lparr>files := files w @ [(p, candles)]\<rparr>))
                 | Some e' \<Rightarrow> (Inl e', w\<lparr>files := files w @ [(p, candles)]\<rparr>)))"
  using assms
  by (cases "console (Saved p)"; cases "console SaveError")
     (simp_all add: get_candles_save_def print_to_def write_and_report_def)

text \<open>
  C9 (as amended). When a file path is given, or the working directory can be read, and
  the console takes the message, \<^verbatim>\<open>get_candles_save\<close> returns normally: if \<open>candles\<close> is not
  a DataFrame it prints a diagnostic and writes nothing, and if the write to the path in
  use fails it prints a diagnostic instead of raising. When the console refuses the
  diagnostic, what \<^verbatim>\<open>print\<close> raises reaches the caller.
\<close>

theorem get_candles_save_returns:
  assumes "file_path \<noteq> PNone \<or> cwd \<noteq> None"
  shows "\<exists>p. chosen_path cwd ticker file_path = Inr p \<and>
           (p = GivenPath file_path \<or> (file_path = PNone \<and> p = DefaultPath (the cwd) ticker)) \<and>
           ((\<forall>cols rows. candles \<noteq> PDataFrame cols rows) \<longrightarrow>
              get_candles_save cwd can_write console candles ticker file_path w =
                (case console NotADataFrame of
                   None \<Rightarrow> (Inr (), say NotADataFrame w)
                 | Some e \<Rightarrow> (Inl e, w))) \<and>
           ((\<exists>cols rows. candles = PDataFrame cols rows) \<and> \<not> can_write p \<longrightarrow>
              get_candles_save cwd can_write console candles ticker file_path w =
                (case console SaveError of
                   None \<Rightarrow> (Inr (), say SaveError w)
                 | Some e \<Rightarrow> (Inl e, w))) \<and>
           ((\<exists>cols rows. candles = PDataFrame cols rows) \<and> can_write p \<longrightarrow>
              get_candles_save cwd can_write console candles ticker file_path w =
                (case console (Saved p) of
                   None \<Rightarrow> (Inr (), say (Saved p) (w\<lparr>files := files w @ [(p, candles)]\<rparr>))
                 | Some e \<Rightarrow>
                     (case console SaveError of
                        None \<Rightarrow>
                          (Inr (), say SaveError (w\<lparr>files := files w @ [(p, candles)]\<rparr>))
                      | Some e' \<Rightarrow> (Inl e', w\<lparr>files := files w @ [(p, candles)]\<rparr>)))) \<and>
           ((\<forall>m. console m = None) \<longrightarrow>
              fst (get_candles_save cwd can_write console candles ticker file_path w) = Inr ())"
proof -
  have "\<exists>p. chosen_path cwd ticker file_path = Inr p"
    using assms by (cases cwd; cases "file_path = PNone") (simp_all add: chosen_path_def)
  then obtain p where p: "chosen_path cwd ticker file_path = Inr p" by blast
  then have shape:
    "p = GivenPath file_path \<or> (file_path = PNone \<and> p = DefaultPath (the cwd) ticker)"
    by (auto simp: chosen_path_Inr)
  have nf: "(\<forall>cols rows. candles \<noteq> PDataFrame cols rows) \<longrightarrow>
              get_candles_save cwd can_write console candles ticker file_path w =
                (case console NotADataFrame of
                   None \<Rightarrow> (Inr (), say NotADataFrame w)
                 | Some e \<Rightarrow> (Inl e, w))"
    using save_not_a_frame [OF p] by blast
  have wf: "(\<exists>cols rows. candles = PDataFrame cols rows) \<and> \<not> can_write p \<longrightarrow>
              get_candles_save cwd can_write console candles ticker file_path w =
                (case console SaveError of
                   None \<Rightarrow> (Inr (), say SaveError w)
                 | Some e \<Rightarrow> (Inl e, w))"
    using save_write_fails [OF p] by blast
  have wr: "(\<exists>cols rows. candles = PDataFrame cols rows) \<and> can_write p \<longrightarrow>
              get_candles_save cwd can_write console candles ticker file_path w =
                (case console (Saved p) of
                   None \<Rightarrow> (Inr (), say (Saved p) (w\<lparr>files := files w @ [(p, candles)]\<rparr>))
                 | Some e \<Rightarrow>
                     (case console SaveError of
                        None \<Rightarrow>
                          (Inr (), say SaveError (w\<lparr>files := files w @ [(p, candles)]\<rparr>))
                      | Some e' \<Rightarrow> (Inl e', w\<lparr>files := files w @ [(p, candles)]\<rparr>)))"
    using save_written [OF p] by blast
  have quiet: "(\<forall>m. console m = None) \<longrightarrow>
              fst (get_candles_save cwd can_write console candles ticker file_path w) = Inr ()"
  proof
    assume c: "\<forall>m. console m = None"
    show "fst (get_candles_save cwd can_write console candles ticker file_path w) = Inr ()"
    proof (cases "\<exists>cols rows. candles = PDataFrame cols rows")
      case False
      then show ?thesis using save_not_a_frame [OF p, of candles] c by simp
    next
      case True
      then obtain cols rows where f: "candles = PDataFrame cols rows" by blast
      show ?thesis
        using save_write_fails [OF p f, of can_write console w]
          save_written [OF p f, of can_write console w] c
        by (cases "can_write p") simp_all
    qed
  qed
  show ?thesis by (intro exI [of _ p] conjI p shape nf wf wr quiet)
qed

theorem get_candles_save_returns_witness:
  "get_candles_save (Some ''/home'') data_folder_only plain_console (PInt 3) (PStr ''LKOH'')
      PNone idle = (Inr (), say NotADataFrame idle) \<and>
   get_candles_save (Some ''/home'') data_folder_only plain_console (PDataFrame columns [])
      (PStr ''LKOH'') PNone idle = (Inr (), say SaveError idle) \<and>
   get_candles_save (Some ''/data'') data_folder_only plain_console (PDataFrame columns [])
      (PStr ''LKOH'') PNone idle =
     (Inr (), say (Saved (DefaultPath ''/data'' (PStr ''LKOH'')))
        (idle\<lparr>files := [(DefaultPath ''/data'' (PStr ''LKOH''), PDataFrame columns [])]\<rparr>)) \<and>
   get_candles_save None data_folder_only mute_console (PDataFrame columns [])
      (PStr ''LKOH'') (PStr ''out.csv'') idle = (Inl (ValueError OtherValueError), idle)"
proof -
  have c: "chosen_path (Some ''/home'') (PStr ''LKOH'') PNone =
             Inr (DefaultPath ''/home'' (PStr ''LKOH''))"
    "chosen_path (Some ''/data'') (PStr ''LKOH'') PNone =
             Inr (DefaultPath ''/data'' (PStr ''LKOH''))"
    "chosen_path None (PStr ''LKOH'') (PStr ''out.csv'') = Inr (GivenPath (PStr ''out.csv''))"
    by (simp_all add: chosen_path_def)
  from get_candles_save_returns [of PNone "Some ''/home''" "PStr ''LKOH''" "PInt 3"
      data_folder_only plain_console idle]
  have a: "get_candles_save (Some ''/home'') data_folder_only plain_console (PInt 3)
      (PStr ''LKOH'') PNone idle = (Inr (), say NotADataFrame idle)"
    by (simp add: c plain_console_def)
  from get_candles_save_returns [of PNone "Some ''/home''" "PStr ''LKOH''"
      "PDataFrame columns []" data_folder_only plain_console idle]
  have b: "get_candles_save (Some ''/home'') data_folder_only plain_console
      (PDataFrame columns []) (PStr ''LKOH'') PNone idle = (Inr (), say SaveError idle)"
    by (simp add: c plain_console_def data_folder_only_def)
  from get_candles_save_returns [of PNone "Some ''/data''" "PStr ''LKOH''"
      "PDataFrame columns []" data_folder_only plain_console idle]
  have d: "get_candles_save (Some ''/data'') data_folder_only plain_console
      (PDataFrame columns []) (PStr ''LKOH'') PNone idle =
     (Inr (), say (Saved (DefaultPath ''/data'' (PStr ''LKOH'')))
        (idle\<lparr>files := [(DefaultPath ''/data'' (PStr ''LKOH''), PDataFrame columns [])]\<rparr>))"
    by (simp add: c plain_console_def data_folder_only_def idle_def)
  from get_candles_save_returns [of "PStr ''out.csv''" None "PStr ''LKOH''"
      "PDataFrame columns []" data_folder_only mute_console idle]
  have e: "get_candles_save None data_folder_only mute_console (PDataFrame columns [])
      (PStr ''LKOH'') (PStr ''out.csv'') idle = (Inl (ValueError OtherValueError), idle)"
    by (simp add: c mute_console_def data_folder_only_def)
  show ?thesis by (intro conjI a b d e)
qed

text \<open>
  C9 as stated fails. With no file path given, line 151 calls \<^verbatim>\<open>os.getcwd()\<close> before the
  \<^verbatim>\<open>try\<close> statement, and what that call raises reaches the caller. And the diagnostics are
  printed outside the \<^verbatim>\<open>try\<close> statement (line 155) or in its handler (line 163): on a
  console that cannot print them, what \<^verbatim>\<open>print\<close> raises reaches the caller too.
\<close>

theorem get_candles_save_counterexample:
  "get_candles_save None (\<lambda>p. True) plain_console (PDataFrame columns []) (PStr ''LKOH'')
      PNone idle = (Inl OSError, idle) \<and>
   get_candles_save (Some ''/home'') (\<lambda>p. True) mute_console (PInt 3) (PStr ''LKOH'')
      (PStr ''out.csv'') idle = (Inl (ValueError OtherValueError), idle)"
  by (simp add: get_candles_save_def chosen_path_def print_to_def mute_console_def)

section \<open>The latest bar\<close>

lemma info_lkoh: "get_security_info lkoh_exchange (PStr t) w = (Inr lkoh_info, w\<lparr>sent := sent w @ [SecurityReq t]\<rparr>)"
  by (simp add: get_security_info_def send_def json_of_def lkoh_exchange_def security_of_lkoh)

lemma info_closed: "get_security_info closed_exchange (PStr t) w = (Inr lkoh_info, w\<lparr>sent := sent w @ [SecurityReq t]\<rparr>)"
  by (simp add: get_security_info_def send_def json_of_def closed_exchange_def security_of_lkoh)

lemma info_failing: "get_security_info failing_exchange (PStr t) w = (Inr lkoh_info, w\<lparr>sent := sent w @ [SecurityReq t]\<rparr>)"
  by (simp add: get_security_info_def send_def json_of_def failing_exchange_def security_of_lkoh)

lemma history_bar_lkoh:
  "history_bar exact_floats (Some lkoh_history_json) =
     Inr (Some \<lparr>open_price = 7011, close_price = 7235, high_price = 7260, low_price = 7003,
                value_traded = 11121299849 / 2, volume_traded = 774886\<rparr>)"
  by (simp add: history_bar_def json_of_def lkoh_history_json_def lkoh_history_row_def
      history_field_def exact_floats_def)

lemma last_bar_lkoh:
  "last_bar exact_floats (Some lkoh_candles_json) =
     Inr (Some \<lparr>open_price = 6962, close_price = 6963, high_price = 6963, low_price = 13923 / 2,
                value_traded = 974679 / 2, volume_traded = 70\<rparr>)"
  by (simp add: last_bar_def json_of_def lkoh_candles_json_def lkoh_candle_def
      candle_field_def exact_floats_def)

lemma last_bar_empty: "last_bar fl (Some (PDict [])) = Inr None"
  by (simp add: last_bar_def json_of_def)

lemma history_bar_empty: "history_bar fl (Some (PDict [])) = Inr None"
  by (simp add: history_bar_def json_of_def)

lemma history_lkoh:
  "get_last_history_candle exact_floats lkoh_exchange (PStr t) w =
     (Inr (Some \<lparr>open_price = 7011, close_price = 7235, high_price = 7260, low_price = 7003,
                value_traded = 11121299849 / 2, volume_traded = 774886\<rparr>),
      w\<lparr>sent := sent w @ [SecurityReq t, HistoryReq (PStr ''stock'') (PStr ''shares'') t]\<rparr>)"
  by (simp add: get_last_history_candle_def info_lkoh send_def lkoh_exchange_def
      history_bar_lkoh lkoh_info_def)

lemma history_closed:
  "get_last_history_candle exact_floats closed_exchange (PStr t) w =
     (Inr (Some \<lparr>open_price = 7011, close_price = 7235, high_price = 7260, low_price = 7003,
                value_traded = 11121299849 / 2, volume_traded = 774886\<rparr>),
      w\<lparr>sent := sent w @ [SecurityReq t, HistoryReq (PStr ''stock'') (PStr ''shares'') t]\<rparr>)"
  by (simp add: get_last_history_candle_def info_closed send_def closed_exchange_def
      history_bar_lkoh lkoh_info_def)

lemma history_quiet:
  "get_last_history_candle fl quiet_exchange (PStr t) w =
     (Inr None, say NoHistoryData
        (w\<lparr>sent := sent w @ [SecurityReq t, HistoryReq (PStr ''stock'') (PStr ''shares'') t]\<rparr>))"
  by (simp add: get_last_history_candle_def get_security_info_quiet send_def quiet_exchange_def
      history_bar_empty lkoh_info_def)

lemma history_failing:
  "get_last_history_candle fl failing_exchange (PStr t) w =
     (Inr None, say (RequestError RequestException)
        (w\<lparr>sent := sent w @ [SecurityReq t, HistoryReq (PStr ''stock'') (PStr ''shares'') t]\<rparr>))"
  by (simp add: get_last_history_candle_def info_failing send_def failing_exchange_def lkoh_info_def)

lemma candle_lkoh:
  "get_last_candle exact_floats lkoh_exchange (PStr t) (PDatetime a) (PDatetime b) i w =
     (Inr (Some \<lparr>open_price = 6962, close_price = 6963, high_price = 6963, low_price = 13923 / 2,
                value_traded = 974679 / 2, volume_traded = 70\<rparr>),
      w\<lparr>sent := sent w @ [SecurityReq t,
            CandlesReq (PStr ''stock'') (PStr ''shares'') t (strftime_full a) (strftime_full b) i]\<rparr>)"
  by (simp add: get_last_candle_def info_lkoh send_def lkoh_exchange_def strftime_of_def
      last_bar_lkoh lkoh_info_def)

lemma candle_closed:
  "get_last_candle fl closed_exchange (PStr t) (PDatetime a) (PDatetime b) i w =
     (Inr None, say NoData (w\<lparr>sent := sent w @ [SecurityReq t,
            CandlesReq (PStr ''stock'') (PStr ''shares'') t (strftime_full a) (strftime_full b) i]\<rparr>))"
  by (simp add: get_last_candle_def info_closed send_def closed_exchange_def strftime_of_def
      last_bar_empty lkoh_info_def)

lemma candle_quiet:
  "get_last_candle fl quiet_exchange (PStr t) (PDatetime a) (PDatetime b) i w =
     (Inr None, say NoData (w\<lparr>sent := sent w @ [SecurityReq t,
            CandlesReq (PStr ''stock'') (PStr ''shares'') t (strftime_full a) (strftime_full b) i]\<rparr>))"
  by (simp add: get_last_candle_def get_security_info_quiet send_def quiet_exchange_def strftime_of_def
      last_bar_empty lkoh_info_def)

lemma candle_failing:
  "get_last_candle fl failing_exchange (PStr t) (PDatetime a) (PDatetime b) i w =
     (Inr None, say (RequestError RequestException) (w\<lparr>sent := sent w @ [SecurityReq t,
            CandlesReq (PStr ''stock'') (PStr ''shares'') t (strftime_full a) (strftime_full b) i]\<rparr>))"
  by (simp add: get_last_candle_def info_failing send_def failing_exchange_def strftime_of_def
      lkoh_info_def)

lemma quarter_before: "plus_timedelta dec18_evening 0 (- 900) = Inr dec18_quarter_before"
proof -
  have "plus_timedelta dec18_evening 0 (- 900) =
          Inr (dec18_evening\<lparr>hour := 83715 div 3600, minute := (83715 mod 3600) div 60,
                 second := 83715 mod 60\<rparr>)"
    by (rule plus_timedelta_same_day) (simp_all add: dec18_evening_def)
  then show ?thesis by (simp add: dec18_evening_def dec18_quarter_before_def)
qed


text \<open>
  C8. \<^verbatim>\<open>get_last_price\<close> asks \<^verbatim>\<open>get_last_candle\<close> for the window from 15 minutes before
  now to now at interval 1 and returns the close of the bar it finds, without any further
  request; when there is none it asks \<^verbatim>\<open>get_last_history_candle\<close> and returns the close of
  that bar; when there is none either it returns \<^verbatim>\<open>None\<close>.
\<close>

theorem last_price_chain:
  assumes "plus_timedelta now 0 (- 900) = Inr start_time"
  shows "(\<forall>b w1. get_last_candle fl net (PStr t) (PDatetime start_time) (PDatetime now) (PInt 1) w =
                    (Inr (Some b), w1) \<longrightarrow>
            get_last_price fl net now (PStr t) w = (Inr (Some (close_price b)), w1)) \<and>
         (\<forall>b w1 w2. get_last_candle fl net (PStr t) (PDatetime start_time) (PDatetime now) (PInt 1) w =
                    (Inr None, w1) \<and>
                  get_last_history_candle fl net (PStr t) w1 = (Inr (Some b), w2) \<longrightarrow>
            get_last_price fl net now (PStr t) w = (Inr (Some (close_price b)), w2)) \<and>
         (\<forall>w1 w2. get_last_candle fl net (PStr t) (PDatetime start_time) (PDatetime now) (PInt 1) w =
                    (Inr None, w1) \<and>
                  get_last_history_candle fl net (PStr t) w1 = (Inr None, w2) \<longrightarrow>
            get_last_price fl net now (PStr t) w = (Inr None, w2))"
  using assms by (simp add: get_last_price_def)

theorem last_price_chain_witness:
  "plus_timedelta dec18_evening 0 (- 900) = Inr dec18_quarter_before \<and>
   fst (get_last_price exact_floats lkoh_exchange dec18_evening (PStr ''LKOH'') idle) =
     Inr (Some 6963) \<and>
   sent (snd (get_last_price exact_floats lkoh_exchange dec18_evening (PStr ''LKOH'') idle)) =
     [SecurityReq ''LKOH'',
      CandlesReq (PStr ''stock'') (PStr ''shares'') ''LKOH''
        ''2024-12-18 23:15:15'' ''2024-12-18 23:30:15'' (PInt 1)] \<and>
   fst (get_last_price exact_floats closed_exchange dec18_evening (PStr ''LKOH'') idle) =
     Inr (Some 7235) \<and>
   fst (get_last_price exact_floats quiet_exchange dec18_evening (PStr ''LKOH'') idle) = Inr None"
proof -
  have f: "strftime_full dec18_quarter_before = ''2024-12-18 23:15:15''"
    "strftime_full dec18_evening = ''2024-12-18 23:30:15''"
    by (simp_all add: strftime_full_def pad2_def pad4_def digit_def dec18_evening_def
        dec18_quarter_before_def)
  from last_price_chain [OF quarter_before, of exact_floats lkoh_exchange "''LKOH''" idle]
    last_price_chain [OF quarter_before, of exact_floats closed_exchange "''LKOH''" idle]
    last_price_chain [OF quarter_before, of exact_floats quiet_exchange "''LKOH''" idle]
  show ?thesis
    by (simp add: quarter_before candle_lkoh candle_closed candle_quiet history_closed
        history_quiet f idle_def)
qed

lemma history_bar_all:
  assumes "dict_get js ''history'' (PDict []) = Inr h"
    and "dict_get h ''data'' (PList []) = Inr data"
    and "truthy data"
    and "history_field fl data 6 = Inr opn" and "history_field fl data 11 = Inr cls"
    and "history_field fl data 8 = Inr high" and "history_field fl data 7 = Inr low"
    and "history_field fl data 5 = Inr val" and "history_field fl data 12 = Inr vol"
  shows "history_bar fl (Some js) =
          Inr (Some \<lparr>open_price = opn, close_price = cls, high_price = high, low_price = low,
                       value_traded = val, volume_traded = vol\<rparr>)"
  using assms by (simp add: history_bar_def json_of_def)

lemma history_bar_error:
  assumes "dict_get js ''history'' (PDict []) = Inr h"
    and "dict_get h ''data'' (PList []) = Inr data"
    and "truthy data"
    and "first_error [history_field fl data 6, history_field fl data 11, history_field fl data 8,
           history_field fl data 7, history_field fl data 5, history_field fl data 12] = Some e"
  shows "history_bar fl (Some js) = Inl e"
proof -
  have "and_then (history_field fl data 6) (\<lambda>open.
         and_then (history_field fl data 11) (\<lambda>close.
         and_then (history_field fl data 8) (\<lambda>high.
         and_then (history_field fl data 7) (\<lambda>low.
         and_then (history_field fl data 5) (\<lambda>value.
         and_then (history_field fl data 12) (\<lambda>volume.
           Inr (Some \<lparr>open_price = open, close_price = close, high_price = high,
                      low_price = low, value_traded = value, volume_traded = volume\<rparr>))))))) = Inl e"
    using assms(4)
    by (cases "history_field fl data 6"; cases "history_field fl data 11";
        cases "history_field fl data 8"; cases "history_field fl data 7";
        cases "history_field fl data 5"; cases "history_field fl data 12") simp_all
  then show ?thesis using assms(1-3) by (simp add: history_bar_def json_of_def)
qed

lemma history_field_list:
  "getitem_int data 0 = Inr (PList row) \<Longrightarrow>
   history_field fl data k = (if k < length row then py_float fl (row ! k) else Inl IndexError)"
  by (simp add: history_field_def)

text \<open>
  C7 (as amended). When the history response has at least one row,
  \<^verbatim>\<open>get_last_history_candle\<close> evaluates \<^verbatim>\<open>float(data[0][k])\<close> for \<open>k\<close> = 6, 11, 8, 7, 5, 12
  in this order. When all six succeed it returns them as open, close, high, low, value and
  volume. Otherwise the exception of the first that fails leaves the function (it is not
  a \<^verbatim>\<open>RequestException\<close> unless the conversion raises one): \<^verbatim>\<open>IndexError\<close> for a row that
  is a list too short, \<^verbatim>\<open>TypeError\<close> for a field that is null.
\<close>

theorem history_bar_fields:
  assumes "get_security_info net (PStr t) w = (Inr info, w1)"
    and "net (sent w1) (HistoryReq (engine info) (market info) t) = Response status (Some js)"
    and "\<not> (400 \<le> status \<and> status < 600)"
    and "dict_get js ''history'' (PDict []) = Inr h"
    and "dict_get h ''data'' (PList []) = Inr data"
    and "truthy data"
  shows "(\<forall>opn cls high low val vol.
            history_field fl data 6 = Inr opn \<and> history_field fl data 11 = Inr cls \<and>
            history_field fl data 8 = Inr high \<and> history_field fl data 7 = Inr low \<and>
            history_field fl data 5 = Inr val \<and> history_field fl data 12 = Inr vol \<longrightarrow>
            get_last_history_candle fl net (PStr t) w =
              (Inr (Some \<lparr>open_price = opn, close_price = cls, high_price = high,
                          low_price = low, value_traded = val, volume_traded = vol\<rparr>),
               w1\<lparr>sent := sent w1 @ [HistoryReq (engine info) (market info) t]\<rparr>)) \<and>
         (\<forall>e. first_error
                [history_field fl data 6, history_field fl data 11, history_field fl data 8,
                 history_field fl data 7, history_field fl data 5, history_field fl data 12] =
                Some e \<longrightarrow>
            get_last_history_candle fl net (PStr t) w =
              (if is_RequestException e
               then (Inr None, say (RequestError e)
                       (w1\<lparr>sent := sent w1 @ [HistoryReq (engine info) (market info) t]\<rparr>))
               else (Inl e, w1\<lparr>sent := sent w1 @ [HistoryReq (engine info) (market info) t]\<rparr>))) \<and>
         (\<forall>row k. getitem_int data 0 = Inr (PList row) \<longrightarrow>
            history_field fl data k =
              (if k < length row
               then (case row ! k of
                       PFloat r \<Rightarrow> Inr r
                     | PInt i \<Rightarrow> float_of_int fl i
                     | PBool b \<Rightarrow> float_of_int fl (if b then 1 else 0)
                     | PStr s \<Rightarrow> float_of_str fl s
                     | _ \<Rightarrow> Inl TypeError)
               else Inl IndexError))"
proof (intro conjI allI impI)
  have ok: "(400 \<le> status \<and> status < 600) = False" using assms(3) by simp
  have sd: "send net (HistoryReq (engine info) (market info) t) w1 =
              (Inr (Some js), w1\<lparr>sent := sent w1 @ [HistoryReq (engine info) (market info) t]\<rparr>)"
    by (simp add: send_def assms(2) ok)
  fix opn cls high low val vol
  assume "history_field fl data 6 = Inr opn \<and> history_field fl data 11 = Inr cls \<and>
            history_field fl data 8 = Inr high \<and> history_field fl data 7 = Inr low \<and>
            history_field fl data 5 = Inr val \<and> history_field fl data 12 = Inr vol"
  then have "history_bar fl (Some js) =
          Inr (Some \<lparr>open_price = opn, close_price = cls, high_price = high, low_price = low,
                       value_traded = val, volume_traded = vol\<rparr>)"
    using history_bar_all [OF assms(4-6)] by blast
  then show "get_last_history_candle fl net (PStr t) w =
              (Inr (Some \<lparr>open_price = opn, close_price = cls, high_price = high,
                          low_price = low, value_traded = val, volume_traded = vol\<rparr>),
               w1\<lparr>sent := sent w1 @ [HistoryReq (engine info) (market info) t]\<rparr>)"
    using assms(1) by (simp add: get_last_history_candle_def sd)
next
  have ok: "(400 \<le> status \<and> status < 600) = False" using assms(3) by simp
  have sd: "send net (HistoryReq (engine info) (market info) t) w1 =
              (Inr (Some js), w1\<lparr>sent := sent w1 @ [HistoryReq (engine info) (market info) t]\<rparr>)"
    by (simp add: send_def assms(2) ok)
  fix e
  assume "first_error
                [history_field fl data 6, history_field fl data 11, history_field fl data 8,
                 history_field fl data 7, history_field fl data 5, history_field fl data 12] =
                Some e"
  from history_bar_error [OF assms(4-6) this]
  show "get_last_history_candle fl net (PStr t) w =
              (if is_RequestException e
               then (Inr None, say (RequestError e)
                       (w1\<lparr>sent := sent w1 @ [HistoryReq (engine info) (market info) t]\<rparr>))
               else (Inl e, w1\<lparr>sent := sent w1 @ [HistoryReq (engine info) (market info) t]\<rparr>))"
    using assms(1) by (simp add: get_last_history_candle_def sd)
next
  fix row k
  assume "getitem_int data 0 = Inr (PList row)"
  then show "history_field fl data k =
              (if k < length row
               then (case row ! k of
                       PFloat r \<Rightarrow> Inr r
                     | PInt i \<Rightarrow> float_of_int fl i
                     | PBool b \<Rightarrow> float_of_int fl (if b then 1 else 0)
                     | PStr s \<Rightarrow> float_of_str fl s
                     | _ \<Rightarrow> Inl TypeError)
               else Inl IndexError)"
    by (cases "row ! k") (simp_all add: history_field_list)
qed


theorem history_bar_fields_witness:
  "get_last_history_candle exact_floats lkoh_exchange (PStr ''LKOH'') idle =
     (Inr (Some \<lparr>open_price = 7011, close_price = 7235, high_price = 7260, low_price = 7003,
                value_traded = 11121299849 / 2, volume_traded = 774886\<rparr>),
      idle\<lparr>sent := [SecurityReq ''LKOH'', HistoryReq (PStr ''stock'') (PStr ''shares'') ''LKOH'']\<rparr>) \<and>
   get_last_history_candle exact_floats halted_exchange (PStr ''LKOH'') idle =
     (Inl TypeError,
      idle\<lparr>sent := [SecurityReq ''LKOH'', HistoryReq (PStr ''stock'') (PStr ''shares'') ''LKOH'']\<rparr>)"
proof -
  have s: "\<not> (400 \<le> (200::nat) \<and> (200::nat) < 600)" by simp
  have i: "get_security_info lkoh_exchange (PStr ''LKOH'') idle =
             (Inr lkoh_info, idle\<lparr>sent := [SecurityReq ''LKOH'']\<rparr>)"
    by (simp add: info_lkoh idle_def)
  have n: "lkoh_exchange (sent (idle\<lparr>sent := [SecurityReq ''LKOH'']\<rparr>))
             (HistoryReq (engine lkoh_info) (market lkoh_info) ''LKOH'') =
           Response 200 (Some lkoh_history_json)"
    by (simp add: lkoh_exchange_def)
  have h: "dict_get lkoh_history_json ''history'' (PDict []) =
             Inr (PDict [(''data'', PList [PList lkoh_history_row])])"
    by (simp add: lkoh_history_json_def)
  have d: "dict_get (PDict [(''data'', PList [PList lkoh_history_row])]) ''data'' (PList []) =
             Inr (PList [PList lkoh_history_row])" by simp
  have t: "truthy (PList [PList lkoh_history_row])" by simp
  have f: "history_field exact_floats (PList [PList lkoh_history_row]) 6 = Inr 7011"
    "history_field exact_floats (PList [PList lkoh_history_row]) 11 = Inr 7235"
    "history_field exact_floats (PList [PList lkoh_history_row]) 8 = Inr 7260"
    "history_field exact_floats (PList [PList lkoh_history_row]) 7 = Inr 7003"
    "history_field exact_floats (PList [PList lkoh_history_row]) 5 = Inr (11121299849 / 2)"
    "history_field exact_floats (PList [PList lkoh_history_row]) 12 = Inr 774886"
    by (simp_all add: history_field_def lkoh_history_row_def exact_floats_def)
  from history_bar_fields [OF i n s h d t, of exact_floats] f
  have a: "get_last_history_candle exact_floats lkoh_exchange (PStr ''LKOH'') idle =
     (Inr (Some \<lparr>open_price = 7011, close_price = 7235, high_price = 7260, low_price = 7003,
                value_traded = 11121299849 / 2, volume_traded = 774886\<rparr>),
      idle\<lparr>sent := [SecurityReq ''LKOH'', HistoryReq (PStr ''stock'') (PStr ''shares'') ''LKOH'']\<rparr>)"
    by (simp add: lkoh_info_def)
  have i': "get_security_info halted_exchange (PStr ''LKOH'') idle =
             (Inr lkoh_info, idle\<lparr>sent := [SecurityReq ''LKOH'']\<rparr>)"
    by (simp add: get_security_info_def send_def json_of_def halted_exchange_def
        security_of_lkoh idle_def)
  have n': "halted_exchange (sent (idle\<lparr>sent := [SecurityReq ''LKOH'']\<rparr>))
             (HistoryReq (engine lkoh_info) (market lkoh_info) ''LKOH'') =
           Response 200 (Some halted_history_json)"
    by (simp add: halted_exchange_def)
  have h': "dict_get halted_history_json ''history'' (PDict []) =
             Inr (PDict [(''data'', PList [PList (lkoh_history_row [11 := PNone])])])"
    by (simp add: halted_history_json_def)
  have d': "dict_get (PDict [(''data'', PList [PList (lkoh_history_row [11 := PNone])])])
              ''data'' (PList []) = Inr (PList [PList (lkoh_history_row [11 := PNone])])" by simp
  have t': "truthy (PList [PList (lkoh_history_row [11 := PNone])])" by simp
  have f': "first_error
     [history_field exact_floats (PList [PList (lkoh_history_row [11 := PNone])]) 6,
      history_field exact_floats (PList [PList (lkoh_history_row [11 := PNone])]) 11,
      history_field exact_floats (PList [PList (lkoh_history_row [11 := PNone])]) 8,
      history_field exact_floats (PList [PList (lkoh_history_row [11 := PNone])]) 7,
      history_field exact_floats (PList [PList (lkoh_history_row [11 := PNone])]) 5,
      history_field exact_floats (PList [PList (lkoh_history_row [11 := PNone])]) 12] =
     Some TypeError"
    by (simp add: history_field_def lkoh_history_row_def exact_floats_def)
  from history_bar_fields [OF i' n' s h' d' t', of exact_floats] f'
  have b: "get_last_history_candle exact_floats halted_exchange (PStr ''LKOH'') idle =
     (Inl TypeError,
      idle\<lparr>sent := [SecurityReq ''LKOH'', HistoryReq (PStr ''stock'') (PStr ''shares'') ''LKOH'']\<rparr>)"
    by (simp add: lkoh_info_def)
  show ?thesis by (intro conjI a b)
qed

text \<open>
  C7 as stated fails: a non-empty history result whose row has no closing price is not
  mapped to a bar; \<^verbatim>\<open>float(None)\<close> raises \<^verbatim>\<open>TypeError\<close>, which the handler of line 242
  does not catch.
\<close>

theorem null_close_counterexample:
  "truthy (PList [PList (lkoh_history_row [11 := PNone])]) \<and>
   get_last_history_candle exact_floats halted_exchange (PStr ''LKOH'') idle =
     (Inl TypeError,
      idle\<lparr>sent := [SecurityReq ''LKOH'', HistoryReq (PStr ''stock'') (PStr ''shares'') ''LKOH'']\<rparr>)"
  by (simp add: get_last_history_candle_def get_security_info_def send_def json_of_def
      halted_exchange_def security_of_lkoh idle_def lkoh_info_def history_bar_def
      halted_history_json_def history_field_def lkoh_history_row_def exact_floats_def)

lemma request_fails_send:
  "request_fails (net (sent w) req) \<Longrightarrow>
   \<exists>e. is_RequestException e \<and>
       (case send net req w of (r, w') \<Rightarrow> and_then r (\<lambda>body. and_then (json_of body) f)) = Inl e"
  by (cases "net (sent w) req")
     (auto simp: request_fails_def send_def json_of_def)

lemma empty_result_send:
  "empty_result name (net (sent w) req) \<Longrightarrow>
   \<exists>js x data. fst (send net req w) = Inr (Some js) \<and> dict_get js name (PDict []) = Inr x \<and>
       dict_get x ''data'' (PList []) = Inr data \<and> \<not> truthy data"
  by (cases "net (sent w) req")
     (auto simp: empty_result_def send_def and_then_def split: option.splits sum.splits)

lemma snd_send: "snd (send net req w) = w\<lparr>sent := sent w @ [req]\<rparr>"
  by (simp add: send_def)

lemma history_failed:
  assumes "get_security_info net (PStr t) w = (Inr info, w1)"
    and "request_fails (net (sent w1) (HistoryReq (engine info) (market info) t))"
  shows "\<exists>e. get_last_history_candle fl net (PStr t) w =
           (Inr None, say (RequestError e) (w1\<lparr>sent := sent w1 @ [HistoryReq (engine info) (market info) t]\<rparr>))"
proof -
  let ?req = "HistoryReq (engine info) (market info) t"
  obtain r w2 where s: "send net ?req w1 = (r, w2)" by (cases "send net ?req w1")
  from snd_send [of net ?req w1] s have w2: "w2 = w1\<lparr>sent := sent w1 @ [?req]\<rparr>" by simp
  from assms(2) s obtain e where e: "is_RequestException e" "and_then r (history_bar fl) = Inl e"
    by (cases "net (sent w1) ?req")
       (auto simp: request_fails_def send_def json_of_def history_bar_def split: if_splits)
  show ?thesis
    using assms(1) s e w2 by (auto simp: get_last_history_candle_def)
qed

lemma history_empty:
  assumes "get_security_info net (PStr t) w = (Inr info, w1)"
    and "empty_result ''history'' (net (sent w1) (HistoryReq (engine info) (market info) t))"
  shows "get_last_history_candle fl net (PStr t) w =
           (Inr None, say NoHistoryData (w1\<lparr>sent := sent w1 @ [HistoryReq (engine info) (market info) t]\<rparr>))"
proof -
  let ?req = "HistoryReq (engine info) (market info) t"
  obtain r w2 where s: "send net ?req w1 = (r, w2)" by (cases "send net ?req w1")
  from snd_send [of net ?req w1] s have w2: "w2 = w1\<lparr>sent := sent w1 @ [?req]\<rparr>" by simp
  from empty_result_send [of "''history''" net w1 ?req, OF assms(2)] s obtain js x data where
    "r = Inr (Some js)" "dict_get js ''history'' (PDict []) = Inr x"
    "dict_get x ''data'' (PList []) = Inr data" "\<not> truthy data" by auto
  then have "and_then r (history_bar fl) = Inr None"
    by (simp add: history_bar_def json_of_def)
  then show ?thesis
    using assms(1) s w2 by (simp add: get_last_history_candle_def)
qed

lemma candle_failed:
  assumes "get_security_info net (PStr t) w = (Inr info, w1)"
    and "request_fails (net (sent w1) (CandlesReq (engine info) (market info) t (strftime_full a) (strftime_full b) i))"
  shows "\<exists>e. get_last_candle fl net (PStr t) (PDatetime a) (PDatetime b) i w =
           (Inr None, say (RequestError e)
              (w1\<lparr>sent := sent w1 @ [CandlesReq (engine info) (market info) t (strftime_full a) (strftime_full b) i]\<rparr>))"
proof -
  let ?req = "CandlesReq (engine info) (market info) t (strftime_full a) (strftime_full b) i"
  obtain r w2 where s: "send net ?req w1 = (r, w2)" by (cases "send net ?req w1")
  from snd_send [of net ?req w1] s have w2: "w2 = w1\<lparr>sent := sent w1 @ [?req]\<rparr>" by simp
  from assms(2) s obtain e where e: "is_RequestException e" "and_then r (last_bar fl) = Inl e"
    by (cases "net (sent w1) ?req")
       (auto simp: request_fails_def send_def json_of_def last_bar_def split: if_splits)
  show ?thesis
    using assms(1) s e w2 by (auto simp: get_last_candle_def strftime_of_def)
qed

lemma candle_empty:
  assumes "get_security_info net (PStr t) w = (Inr info, w1)"
    and "empty_result ''candles'' (net (sent w1) (CandlesReq (engine info) (market info) t (strftime_full a) (strftime_full b) i))"
  shows "get_last_candle fl net (PStr t) (PDatetime a) (PDatetime b) i w =
           (Inr None, say NoData
              (w1\<lparr>sent := sent w1 @ [CandlesReq (engine info) (market info) t (strftime_full a) (strftime_full b) i]\<rparr>))"
proof -
  let ?req = "CandlesReq (engine info) (market info) t (strftime_full a) (strftime_full b) i"
  obtain r w2 where s: "send net ?req w1 = (r, w2)" by (cases "send net ?req w1")
  from snd_send [of net ?req w1] s have w2: "w2 = w1\<lparr>sent := sent w1 @ [?req]\<rparr>" by simp
  from empty_result_send [of "''candles''" net w1 ?req, OF assms(2)] s obtain js x data where
    "r = Inr (Some js)" "dict_get js ''candles'' (PDict []) = Inr x"
    "dict_get x ''data'' (PList []) = Inr data" "\<not> truthy data" by auto
  then have "and_then r (last_bar fl) = Inr None"
    by (simp add: last_bar_def json_of_def)
  then show ?thesis
    using assms(1) s w2 by (simp add: get_last_candle_def strftime_of_def)
qed

text \<open>
  C5 (as amended). In \<^verbatim>\<open>get_last_history_candle\<close> and \<^verbatim>\<open>get_last_candle\<close> an error of the
  instrument lookup is raised to the caller. An empty result set is returned as \<^verbatim>\<open>None\<close>,
  after a message that there is no data. A data request that fails (no response, a status
  from 400 to 599, a body that is not JSON) is caught, and after a message of the error
  the same \<^verbatim>\<open>None\<close> is returned.
\<close>

theorem latest_bar_absent:
  "(\<forall>e w1. get_security_info net (PStr t) w = (Inl e, w1) \<longrightarrow>
      get_last_history_candle fl net (PStr t) w = (Inl e, w1) \<and>
      get_last_candle fl net (PStr t) (PDatetime a) (PDatetime b) i w = (Inl e, w1)) \<and>
   (\<forall>info w1. get_security_info net (PStr t) w = (Inr info, w1) \<longrightarrow>
      (empty_result ''history'' (net (sent w1) (HistoryReq (engine info) (market info) t)) \<longrightarrow>
         get_last_history_candle fl net (PStr t) w =
           (Inr None, say NoHistoryData
              (w1\<lparr>sent := sent w1 @ [HistoryReq (engine info) (market info) t]\<rparr>))) \<and>
      (request_fails (net (sent w1) (HistoryReq (engine info) (market info) t)) \<longrightarrow>
         (\<exists>e. get_last_history_candle fl net (PStr t) w =
           (Inr None, say (RequestError e)
              (w1\<lparr>sent := sent w1 @ [HistoryReq (engine info) (market info) t]\<rparr>)))) \<and>
      (empty_result ''candles'' (net (sent w1)
           (CandlesReq (engine info) (market info) t (strftime_full a) (strftime_full b) i)) \<longrightarrow>
         get_last_candle fl net (PStr t) (PDatetime a) (PDatetime b) i w =
           (Inr None, say NoData
              (w1\<lparr>sent := sent w1 @
                 [CandlesReq (engine info) (market info) t (strftime_full a) (strftime_full b) i]\<rparr>))) \<and>
      (request_fails (net (sent w1)
           (CandlesReq (engine info) (market info) t (strftime_full a) (strftime_full b) i)) \<longrightarrow>
         (\<exists>e. get_last_candle fl net (PStr t) (PDatetime a) (PDatetime b) i w =
           (Inr None, say (RequestError e)
              (w1\<lparr>sent := sent w1 @
                 [CandlesReq (engine info) (market info) t (strftime_full a) (strftime_full b) i]\<rparr>)))))"
proof (intro conjI allI impI)
  fix e w1 assume "get_security_info net (PStr t) w = (Inl e, w1)"
  then show "get_last_history_candle fl net (PStr t) w = (Inl e, w1)"
    and "get_last_candle fl net (PStr t) (PDatetime a) (PDatetime b) i w = (Inl e, w1)"
    by (simp_all add: get_last_history_candle_def get_last_candle_def)
qed (erule (1) history_empty history_failed candle_empty candle_failed)+

theorem latest_bar_absent_witness:
  "empty_result ''history'' (quiet_exchange [SecurityReq ''LKOH'']
      (HistoryReq (PStr ''stock'') (PStr ''shares'') ''LKOH'')) \<and>
   get_last_history_candle exact_floats quiet_exchange (PStr ''LKOH'') idle =
     (Inr None, say NoHistoryData
        (idle\<lparr>sent := [SecurityReq ''LKOH'',
                          HistoryReq (PStr ''stock'') (PStr ''shares'') ''LKOH'']\<rparr>)) \<and>
   request_fails (failing_exchange [SecurityReq ''LKOH'']
      (HistoryReq (PStr ''stock'') (PStr ''shares'') ''LKOH'')) \<and>
   get_last_history_candle exact_floats failing_exchange (PStr ''LKOH'') idle =
     (Inr None, say (RequestError RequestException)
        (idle\<lparr>sent := [SecurityReq ''LKOH'',
                          HistoryReq (PStr ''stock'') (PStr ''shares'') ''LKOH'']\<rparr>)) \<and>
   get_last_history_candle exact_floats quiet_exchange (PInt 7) idle = (Inl TypeError, idle)"
proof -
  have e: "empty_result ''history'' (quiet_exchange [SecurityReq ''LKOH'']
      (HistoryReq (PStr ''stock'') (PStr ''shares'') ''LKOH''))"
    by (simp add: empty_result_def quiet_exchange_def)
  have f: "request_fails (failing_exchange [SecurityReq ''LKOH'']
      (HistoryReq (PStr ''stock'') (PStr ''shares'') ''LKOH''))"
    by (simp add: request_fails_def failing_exchange_def)
  have t: "get_last_history_candle exact_floats quiet_exchange (PInt 7) idle = (Inl TypeError, idle)"
    by (simp add: get_last_history_candle_def)
  from latest_bar_absent [of quiet_exchange "''LKOH''" idle exact_floats dec18_midnight
      dec18_evening "PInt 1"]
    latest_bar_absent [of failing_exchange "''LKOH''" idle exact_floats dec18_midnight
      dec18_evening "PInt 1"]
  show ?thesis
    using e f t
    by (simp add: get_security_info_quiet info_failing history_quiet history_failing
        lkoh_info_def idle_def)
qed

text \<open>
  C5 as stated fails: when the data request gets no response, both lookups return the
  value they return for an empty result set.
\<close>

theorem latest_bar_counterexample:
  "fst (get_last_candle exact_floats failing_exchange (PStr ''LKOH'')
          (PDatetime dec18_midnight) (PDatetime dec18_evening) (PInt 1) idle) = Inr None \<and>
   fst (get_last_candle exact_floats quiet_exchange (PStr ''LKOH'')
          (PDatetime dec18_midnight) (PDatetime dec18_evening) (PInt 1) idle) = Inr None \<and>
   fst (get_last_history_candle exact_floats failing_exchange (PStr ''LKOH'') idle) = Inr None \<and>
   fst (get_last_history_candle exact_floats quiet_exchange (PStr ''LKOH'') idle) = Inr None \<and>
   failing_exchange [SecurityReq ''LKOH'']
     (HistoryReq (PStr ''stock'') (PStr ''shares'') ''LKOH'') = NoResponse"
  by (simp add: candle_failing candle_quiet history_failing history_quiet failing_exchange_def)

section \<open>Candle rows\<close>




lemma split_single: "length (split_ws [] [ch]) \<le> 1"
  by simp







lemma run_windows_result:
  "(case run_windows body ws s of (None, s') \<Rightarrow> (None, s') | (Some e, s') \<Rightarrow> (Some e, s')) =
     run_windows body ws s"
  by (cases "run_windows body ws s"; cases "fst (run_windows body ws s)") auto








section \<open>The loops run the planned windows\<close>










section \<open>The table of candles\<close>




lemma dict_get_shape: "dict_get v k d = Inl e \<Longrightarrow> shape_error e"
  by (cases v) (auto simp: shape_error_def split: option.splits)

lemma iterate_shape: "iterate v = Inl e \<Longrightarrow> shape_error e"
  by (cases v) (auto simp: shape_error_def)











end
